theory Spec2Isabelle
  imports Main "HOL-Library.Char_ord" "HOL-Library.List_Lexorder" "HOL-Library.Sublist"
begin

section \<open>Strings of the Go runtime used by \<^verbatim>\<open>mysql/resource_grant.go\<close>\<close>

text \<open>
  A Go string is modelled as a \<^typ>\<open>string\<close>, one \<^typ>\<open>char\<close> per rune. The model covers
  ASCII text (SQL keywords, identifiers, quoting characters): case mapping and the
  white-space classes below are those of Go on the ASCII range, and every other
  character is left alone by them.
\<close>

definition IsSpace :: "char \<Rightarrow> bool" where
  \<comment> \<open>\<^verbatim>\<open>unicode.IsSpace\<close> on ASCII: tab, line feed, vertical tab, form feed, carriage return, space\<close>
  "IsSpace c = (c \<in> set [CHR 0x09, CHR 0x0A, CHR 0x0B, CHR 0x0C, CHR 0x0D, CHR '' ''])"

definition lowerLetters :: string where
  "lowerLetters = ''abcdefghijklmnopqrstuvwxyz''"

definition upperLetters :: string where
  "upperLetters = ''ABCDEFGHIJKLMNOPQRSTUVWXYZ''"

definition digitChars :: string where
  "digitChars = ''0123456789''"

definition toUpperRune :: "char \<Rightarrow> char" where
  "toUpperRune c = (case map_of (zip lowerLetters upperLetters) c of Some u \<Rightarrow> u | None \<Rightarrow> c)"

definition toLowerRune :: "char \<Rightarrow> char" where
  "toLowerRune c = (case map_of (zip upperLetters lowerLetters) c of Some l \<Rightarrow> l | None \<Rightarrow> c)"

definition ToUpper :: "string \<Rightarrow> string" where
  "ToUpper s = map toUpperRune s"

definition ToLower :: "string \<Rightarrow> string" where
  "ToLower s = map toLowerRune s"

definition HasPrefix :: "string \<Rightarrow> string \<Rightarrow> bool" where
  "HasPrefix s p = (take (length p) s = p)"

definition HasSuffix :: "string \<Rightarrow> string \<Rightarrow> bool" where
  "HasSuffix s p = (length p \<le> length s \<and> drop (length s - length p) s = p)"

fun Contains :: "string \<Rightarrow> string \<Rightarrow> bool" where
  \<comment> \<open>\<^verbatim>\<open>strings.Contains(s, sub)\<close>\<close>
  "Contains [] sub = (sub = [])"
| "Contains (c # s) sub = (HasPrefix (c # s) sub \<or> Contains s sub)"

definition Trim :: "string \<Rightarrow> string \<Rightarrow> string" where
  \<comment> \<open>\<^verbatim>\<open>strings.Trim(s, cutset)\<close>: leading and trailing characters of the cutset removed\<close>
  "Trim s cutset =
     rev (dropWhile (\<lambda>c. c \<in> set cutset) (rev (dropWhile (\<lambda>c. c \<in> set cutset) s)))"

fun splitAcc :: "char \<Rightarrow> string \<Rightarrow> string \<Rightarrow> string list" where
  "splitAcc sep cur [] = [cur]"
| "splitAcc sep cur (c # s) =
     (if c = sep then cur # splitAcc sep [] s else splitAcc sep (cur @ [c]) s)"

definition Split :: "string \<Rightarrow> char \<Rightarrow> string list" where
  \<comment> \<open>\<^verbatim>\<open>strings.Split(s, sep)\<close> for a separator of one character (\<^verbatim>\<open>","\<close> and \<^verbatim>\<open>"@"\<close> in the source)\<close>
  "Split s sep = splitAcc sep [] s"

fun Join :: "string list \<Rightarrow> string \<Rightarrow> string" where
  \<comment> \<open>\<^verbatim>\<open>strings.Join(elems, sep)\<close>\<close>
  "Join [] sep = []"
| "Join [x] sep = x"
| "Join (x # y # ys) sep = x @ sep @ Join (y # ys) sep"

section \<open>Privilege tokenizer\<close>

text \<open>
  \<^verbatim>\<open>extractPermTypes\<close>: the loop over the runes of \<^verbatim>\<open>g\<close> with its three
  variables \<^verbatim>\<open>grants\<close>, \<^verbatim>\<open>inParentheses\<close> and \<^verbatim>\<open>currentWord\<close>; after the loop the
  current word is appended.
\<close>

fun extractLoop :: "string \<Rightarrow> string list \<Rightarrow> bool \<Rightarrow> string \<Rightarrow> string list" where
  "extractLoop [] grants inParentheses currentWord = grants @ [currentWord]"
| "extractLoop (b # g) grants inParentheses currentWord =
     (if b = CHR '','' then
        (if inParentheses then extractLoop g grants inParentheses (currentWord @ [b])
         else extractLoop g (grants @ [currentWord]) inParentheses [])
      else if b = CHR ''('' then extractLoop g grants True (currentWord @ [b])
      else if b = CHR '')'' then extractLoop g grants False (currentWord @ [b])
      else if IsSpace b \<and> currentWord = [] then extractLoop g grants inParentheses currentWord
      else extractLoop g grants inParentheses (currentWord @ [b]))"

definition extractPermTypes :: "string \<Rightarrow> string list" where
  "extractPermTypes g = extractLoop g [] False []"

text \<open>
  The tokenizer as the specification words it: the string is cut at every comma that is
  not between an opening and a closing parenthesis (one boolean of state), and the
  white space at the start of each piece is dropped.
\<close>

fun parenAfter :: "bool \<Rightarrow> char \<Rightarrow> bool" where
  "parenAfter inP c = (if c = CHR ''('' then True else if c = CHR '')'' then False else inP)"

fun cutOutsideParens :: "bool \<Rightarrow> string \<Rightarrow> string list" where
  "cutOutsideParens inP [] = [[]]"
| "cutOutsideParens inP (c # cs) =
     (if c = CHR '','' \<and> \<not> inP then [] # cutOutsideParens inP cs
      else (case cutOutsideParens (parenAfter inP c) cs of
              [] \<Rightarrow> [[c]]
            | t # ts \<Rightarrow> (c # t) # ts))"

definition specTokens :: "string \<Rightarrow> string list" where
  "specTokens g = map (dropWhile IsSpace) (cutOutsideParens False g)"

section \<open>Regular expressions\<close>

text \<open>
  The patterns of the source are Go \<^verbatim>\<open>regexp\<close> values. They are kept as data and run
  by one matcher with Go's leftmost-first semantics: the match starts at the leftmost
  possible position, and among the matches starting there the one a backtracking search
  finds first is taken (a repetition takes as much as it can, an alternation prefers its
  left branch, an optional part is tried before it is skipped). Only the constructs the
  source's patterns use are present: repetition is over a character class.
\<close>

datatype cclass =
    Lit char                \<comment> \<open>a literal character\<close>
  | LitI char               \<comment> \<open>a literal character under \<^verbatim>\<open>(?i)\<close>\<close>
  | OneOf string            \<comment> \<open>\<^verbatim>\<open>[abc]\<close>\<close>
  | NoneOf string           \<comment> \<open>\<^verbatim>\<open>[^abc]\<close>\<close>
  | AnyChar                 \<comment> \<open>\<^verbatim>\<open>.\<close>: any character but the line feed\<close>
  | WordC                   \<comment> \<open>\<^verbatim>\<open>\w\<close>: \<^verbatim>\<open>[0-9A-Za-z_]\<close>\<close>
  | SpaceC                  \<comment> \<open>\<^verbatim>\<open>\s\<close>: tab, line feed, form feed, carriage return, space\<close>
  | Union cclass cclass     \<comment> \<open>the classes of one bracket expression together\<close>

fun inClass :: "cclass \<Rightarrow> char \<Rightarrow> bool" where
  "inClass (Lit a) c = (c = a)"
| "inClass (LitI a) c = (toLowerRune c = toLowerRune a)"
| "inClass (OneOf s) c = (c \<in> set s)"
| "inClass (NoneOf s) c = (c \<notin> set s)"
| "inClass AnyChar c = (c \<noteq> CHR 0x0A)"
| "inClass WordC c = (c \<in> set (digitChars @ upperLetters @ lowerLetters @ ''_''))"
| "inClass SpaceC c = (c \<in> set [CHR 0x09, CHR 0x0A, CHR 0x0C, CHR 0x0D, CHR '' ''])"
| "inClass (Union k l) c = (inClass k c \<or> inClass l c)"

datatype regex =
    Eps                     \<comment> \<open>the empty pattern\<close>
  | Ch cclass               \<comment> \<open>one character of the class\<close>
  | Star cclass             \<comment> \<open>\<^verbatim>\<open>x*\<close>, greedy\<close>
  | Plus cclass             \<comment> \<open>\<^verbatim>\<open>x+\<close>, greedy\<close>
  | Seq regex regex
  | Alt regex regex         \<comment> \<open>\<^verbatim>\<open>a|b\<close>\<close>
  | Opt regex               \<comment> \<open>\<^verbatim>\<open>(a)?\<close>, greedy\<close>
  | Group nat regex         \<comment> \<open>a capturing group and its number\<close>
  | Bol                     \<comment> \<open>\<^verbatim>\<open>^\<close>\<close>
  | Eol                     \<comment> \<open>\<^verbatim>\<open>$\<close>: the end of the text\<close>
  | WordB                   \<comment> \<open>\<^verbatim>\<open>\b\<close>\<close>

text \<open>
  A matcher state: the character before the position (none at the start of the text),
  the text still to read, and the groups captured so far.
\<close>

type_synonym mstate = "char option \<times> string \<times> (nat \<times> string) list"

fun runs :: "cclass \<Rightarrow> char option \<Rightarrow> string \<Rightarrow> (nat \<times> string) list \<Rightarrow> mstate list" where
  \<comment> \<open>the states after reading 0, 1, 2, ... characters of the class\<close>
  "runs k p [] c = [(p, [], c)]"
| "runs k p (x # xs) c = (p, x # xs, c) # (if inClass k x then runs k (Some x) xs c else [])"

definition isWordAt :: "char option \<Rightarrow> bool" where
  "isWordAt p = (case p of None \<Rightarrow> False | Some c \<Rightarrow> inClass WordC c)"

fun steps :: "regex \<Rightarrow> mstate \<Rightarrow> mstate list" where
  \<comment> \<open>every way to match the pattern from a state, in the order a backtracking search tries them\<close>
  "steps Eps st = [st]"
| "steps (Ch k) (p, s, c) =
     (case s of [] \<Rightarrow> [] | x # xs \<Rightarrow> if inClass k x then [(Some x, xs, c)] else [])"
| "steps (Star k) (p, s, c) = rev (runs k p s c)"
| "steps (Plus k) (p, s, c) = rev (tl (runs k p s c))"
| "steps (Seq a b) st = concat (map (steps b) (steps a st))"
| "steps (Alt a b) st = steps a st @ steps b st"
| "steps (Opt a) st = steps a st @ [st]"
| "steps (Group n a) (p, s, c) =
     map (\<lambda>(p', s', c'). (p', s', (n, take (length s - length s') s) # c')) (steps a (p, s, c))"
| "steps Bol (p, s, c) = (if p = None then [(p, s, c)] else [])"
| "steps Eol (p, s, c) = (if s = [] then [(p, s, c)] else [])"
| "steps WordB (p, s, c) =
     (if isWordAt p \<noteq> isWordAt (case s of [] \<Rightarrow> None | x # _ \<Rightarrow> Some x)
      then [(p, s, c)] else [])"

fun search :: "regex \<Rightarrow> char option \<Rightarrow> string \<Rightarrow> (string \<times> mstate) option" where
  \<comment> \<open>the first match at the leftmost position that has one\<close>
  "search r p [] = (case steps r (p, [], []) of [] \<Rightarrow> None | st # _ \<Rightarrow> Some ([], st))"
| "search r p (x # xs) =
     (case steps r (p, x # xs, []) of
        [] \<Rightarrow> search r (Some x) xs
      | st # _ \<Rightarrow> Some (x # xs, st))"

fun groupIds :: "regex \<Rightarrow> nat list" where
  "groupIds (Seq a b) = groupIds a @ groupIds b"
| "groupIds (Alt a b) = groupIds a @ groupIds b"
| "groupIds (Opt a) = groupIds a"
| "groupIds (Group n a) = n # groupIds a"
| "groupIds r = []"

definition FindStringSubmatch :: "regex \<Rightarrow> string \<Rightarrow> string list" where
  \<comment> \<open>\<^verbatim>\<open>re.FindStringSubmatch(s)\<close>: nil (the empty list) without a match, else the matched
      text followed by the text of every group (empty for a group that took no part)\<close>
  "FindStringSubmatch r s =
     (case search r None s of
        None \<Rightarrow> []
      | Some (s0, (p, s1, c)) \<Rightarrow>
          take (length s0 - length s1) s0 #
          map (\<lambda>n. case map_of c n of None \<Rightarrow> [] | Some t \<Rightarrow> t) (groupIds r))"

definition MatchString :: "regex \<Rightarrow> string \<Rightarrow> bool" where
  "MatchString r s = (search r None s \<noteq> None)"

fun cat :: "regex list \<Rightarrow> regex" where
  "cat [] = Eps"
| "cat [r] = r"
| "cat (r # rs) = Seq r (cat rs)"

definition str :: "string \<Rightarrow> regex" where
  "str s = cat (map (\<lambda>c. Ch (Lit c)) s)"

definition strI :: "string \<Rightarrow> regex" where
  "strI s = cat (map (\<lambda>c. Ch (LitI c)) s)"

section \<open>Privilege canonicalizer\<close>

definition removeUselessPerms :: "string list \<Rightarrow> string list" where
  "removeUselessPerms grants = filter (\<lambda>grant. grant \<noteq> ''USAGE'') grants"

definition columnsRegex :: regex where
  \<comment> \<open>\<^verbatim>\<open>^([^(]*)\((.*)\)$\<close>\<close>
  "columnsRegex =
     cat [Bol, Group 1 (Star (NoneOf ''('')), Ch (Lit CHR ''(''), Group 2 (Star AnyChar),
          Ch (Lit CHR '')''), Eol]"

definition normalizeColumnOrder :: "string \<Rightarrow> string" where
  "normalizeColumnOrder perm =
     (let m = FindStringSubmatch columnsRegex perm in
      if m = [] \<or> length m < 3 then perm
      else
        let parts = map (\<lambda>part. Trim part ''` '') (Split (m ! 2) CHR '','');
            partsTogether = Join (sort parts) '', ''
        in (m ! 1) @ ''('' @ partsTogether @ '')'')"

definition stripSpacesBackticks :: "string \<Rightarrow> string" where
  \<comment> \<open>\<^verbatim>\<open>re.ReplaceAllString(perm, "")\<close> for the pattern \<^verbatim>\<open>[ `]\<close>: every match is one
      character of the class, and it is removed\<close>
  "stripSpacesBackticks perm = filter (\<lambda>c. \<not> inClass (OneOf ''` '') c) perm"

definition normalizePerm :: "string \<Rightarrow> string" where
  \<comment> \<open>the body of the loop of \<^verbatim>\<open>normalizePerms\<close>\<close>
  "normalizePerm perm =
     (let permNorm = stripSpacesBackticks perm;
          permUcase = ToUpper permNorm;
          permUcase = (if permUcase = ''ALL'' \<or> permUcase = ''ALLPRIVILEGES''
                       then ''ALL PRIVILEGES'' else permUcase)
      in normalizeColumnOrder permUcase)"

definition normalizePerms :: "string list \<Rightarrow> string list" where
  "normalizePerms perms = removeUselessPerms (map normalizePerm perms)"

section \<open>Identity model\<close>

definition sq :: string where
  \<comment> \<open>the single quote\<close>
  "sq = [CHR 0x27]"

definition dq :: string where
  \<comment> \<open>the double quote\<close>
  "dq = [CHR 0x22]"

datatype UserOrRole =
    User string string      \<comment> \<open>\<^verbatim>\<open>User{User, Host}\<close>\<close>
  | Role string             \<comment> \<open>\<^verbatim>\<open>Role{Role}\<close>\<close>

fun SQLString :: "UserOrRole \<Rightarrow> string" where
  "SQLString (User user host) = sq @ user @ sq @ ''@'' @ sq @ host @ sq"
| "SQLString (Role role) = sq @ role @ sq"

fun fmtUserOrRole :: "UserOrRole \<Rightarrow> string" where
  \<comment> \<open>the verb \<^verbatim>\<open>%s\<close> of \<^verbatim>\<open>fmt\<close> on the struct value (it has no \<^verbatim>\<open>String\<close> method)\<close>
  "fmtUserOrRole (User user host) = ''{'' @ user @ '' '' @ host @ ''}''"
| "fmtUserOrRole (Role role) = ''{'' @ role @ ''}''"

section \<open>Grant entity model\<close>

record TablePrivilegeGrant =
  tDatabase :: string
  tTable :: string
  tPrivileges :: "string list"
  tGrant :: bool
  tUserOrRole :: UserOrRole
  tTLSOption :: string

record ProcedurePrivilegeGrant =
  pDatabase :: string
  pObjectT :: string
  pCallableName :: string
  pPrivileges :: "string list"
  pGrant :: bool
  pUserOrRole :: UserOrRole
  pTLSOption :: string

record RoleGrant =
  rRoles :: "string list"
  rGrant :: bool
  rUserOrRole :: UserOrRole
  rTLSOption :: string

text \<open>
  A value of the interface \<^verbatim>\<open>MySQLGrant\<close> is a pointer to one of the three structs;
  the nil interface value is \<^term>\<open>None\<close> of \<^typ>\<open>'a option\<close> where the source can
  produce it.
\<close>

datatype MySQLGrant =
    TableG TablePrivilegeGrant
  | ProcedureG ProcedurePrivilegeGrant
  | RoleG RoleGrant

datatype GrantType = TablePrivilegeGrantPtr | ProcedurePrivilegeGrantPtr | RoleGrantPtr

fun TypeOf :: "MySQLGrant \<Rightarrow> GrantType" where
  \<comment> \<open>\<^verbatim>\<open>reflect.TypeOf\<close>\<close>
  "TypeOf (TableG t) = TablePrivilegeGrantPtr"
| "TypeOf (ProcedureG t) = ProcedurePrivilegeGrantPtr"
| "TypeOf (RoleG t) = RoleGrantPtr"

definition quoteDatabase :: "string \<Rightarrow> string" where
  \<comment> \<open>the body shared by \<^verbatim>\<open>TablePrivilegeGrant.GetDatabase\<close> and
      \<^verbatim>\<open>ProcedurePrivilegeGrant.GetDatabase\<close>\<close>
  "quoteDatabase database =
     (if database \<noteq> ''*'' \<and> \<not> HasSuffix database ''`'' then ''`'' @ database @ ''`''
      else database)"

definition tGetTable :: "TablePrivilegeGrant \<Rightarrow> string" where
  "tGetTable t = (if tTable t = ''*'' \<or> tTable t = [] then ''*'' else ''`'' @ tTable t @ ''`'')"

fun idOf :: "UserOrRole \<Rightarrow> string" where
  "idOf (User user host) = user @ ''@'' @ host"
| "idOf (Role role) = role"

fun GetId :: "MySQLGrant \<Rightarrow> string" where
  "GetId (TableG t) = idOf (tUserOrRole t) @ '':'' @ quoteDatabase (tDatabase t)"
| "GetId (ProcedureG t) = idOf (pUserOrRole t) @ '':'' @ quoteDatabase (pDatabase t)"
| "GetId (RoleG t) = idOf (rUserOrRole t)"

fun GetUserOrRole :: "MySQLGrant \<Rightarrow> UserOrRole" where
  "GetUserOrRole (TableG t) = tUserOrRole t"
| "GetUserOrRole (ProcedureG t) = pUserOrRole t"
| "GetUserOrRole (RoleG t) = rUserOrRole t"

fun GrantOption :: "MySQLGrant \<Rightarrow> bool" where
  "GrantOption (TableG t) = tGrant t"
| "GrantOption (ProcedureG t) = pGrant t"
| "GrantOption (RoleG t) = rGrant t"

fun GetDatabase :: "MySQLGrant \<Rightarrow> string option" where
  \<comment> \<open>the type assertion to \<^verbatim>\<open>MySQLGrantWithDatabase\<close> and the call of \<^verbatim>\<open>GetDatabase\<close>;
      \<^term>\<open>None\<close> for the variant without the method\<close>
  "GetDatabase (TableG t) = Some (quoteDatabase (tDatabase t))"
| "GetDatabase (ProcedureG t) = Some (quoteDatabase (pDatabase t))"
| "GetDatabase (RoleG t) = None"

fun GetTable :: "MySQLGrant \<Rightarrow> string option" where
  \<comment> \<open>the type assertion to \<^verbatim>\<open>MySQLGrantWithTable\<close> and the call of \<^verbatim>\<open>GetTable\<close>\<close>
  "GetTable (TableG t) = Some (tGetTable t)"
| "GetTable (ProcedureG t) = None"
| "GetTable (RoleG t) = None"

definition requireClause :: "string \<Rightarrow> string" where
  "requireClause tlsOption =
     (if tlsOption \<noteq> [] \<and> ToLower tlsOption \<noteq> ''none'' then '' REQUIRE '' @ tlsOption else [])"

definition withOption :: "bool \<Rightarrow> string \<Rightarrow> string" where
  "withOption grant clause = (if grant then clause else [])"

fun SQLGrantStatement :: "MySQLGrant \<Rightarrow> string" where
  "SQLGrantStatement (TableG t) =
     ''GRANT '' @ Join (tPrivileges t) '', '' @ '' ON '' @ quoteDatabase (tDatabase t) @ ''.''
       @ tGetTable t @ '' TO '' @ SQLString (tUserOrRole t)
       @ requireClause (tTLSOption t) @ withOption (tGrant t) '' WITH GRANT OPTION''"
| "SQLGrantStatement (ProcedureG t) =
     ''GRANT '' @ Join (pPrivileges t) '', '' @ '' ON '' @ pObjectT t @ '' ''
       @ quoteDatabase (pDatabase t) @ ''.'' @ pCallableName t @ '' TO ''
       @ SQLString (pUserOrRole t)
       @ requireClause (pTLSOption t) @ withOption (pGrant t) '' WITH GRANT OPTION''"
| "SQLGrantStatement (RoleG t) =
     ''GRANT '' @ Join (rRoles t) '', '' @ '' TO '' @ SQLString (rUserOrRole t)
       @ requireClause (rTLSOption t) @ withOption (rGrant t) '' WITH ADMIN OPTION''"

fun SQLPartialRevokePrivilegesStatement :: "MySQLGrant \<Rightarrow> string list \<Rightarrow> string option" where
  \<comment> \<open>the type assertion to \<^verbatim>\<open>PrivilegesPartiallyRevocable\<close> and the call of its method;
      \<^term>\<open>None\<close> for the variant without the method\<close>
  "SQLPartialRevokePrivilegesStatement (TableG t) privilegesToRevoke =
     Some (''REVOKE '' @ Join privilegesToRevoke '', '' @ '' ON '' @ quoteDatabase (tDatabase t)
       @ ''.'' @ tGetTable t @ '' FROM '' @ SQLString (tUserOrRole t)
       @ withOption (tGrant t) '' WITH GRANT OPTION'')"
| "SQLPartialRevokePrivilegesStatement (ProcedureG t) privilegesToRevoke =
     Some (''REVOKE '' @ Join privilegesToRevoke '', '' @ '' ON '' @ pObjectT t @ '' ''
       @ quoteDatabase (pDatabase t) @ ''.'' @ pCallableName t @ '' FROM ''
       @ SQLString (pUserOrRole t)
       @ withOption (pGrant t) '' WITH GRANT OPTION'')"
| "SQLPartialRevokePrivilegesStatement (RoleG t) privilegesToRevoke = None"

fun SQLRevokeStatement :: "MySQLGrant \<Rightarrow> string" where
  "SQLRevokeStatement (TableG t) =
     ''REVOKE '' @ Join (tPrivileges t) '', '' @ '' ON '' @ quoteDatabase (tDatabase t) @ ''.''
       @ tGetTable t @ '' FROM '' @ SQLString (tUserOrRole t)
       @ withOption (tGrant t) '' WITH GRANT OPTION''"
| "SQLRevokeStatement (ProcedureG t) =
     ''REVOKE '' @ Join (pPrivileges t) '', '' @ '' ON '' @ pObjectT t @ '' ''
       @ quoteDatabase (pDatabase t) @ ''.'' @ pCallableName t @ '' FROM ''
       @ SQLString (pUserOrRole t)
       @ withOption (pGrant t) '' WITH GRANT OPTION''"
| "SQLRevokeStatement (RoleG t) =
     ''REVOKE '' @ Join (rRoles t) '', '' @ '' FROM '' @ SQLString (rUserOrRole t)"

section \<open>Statement parser\<close>

definition wordSpaceComma :: cclass where
  \<comment> \<open>\<^verbatim>\<open>[\w\s,]\<close>\<close>
  "wordSpaceComma = Union WordC (Union SpaceC (OneOf '',''))"

definition reRequire :: regex where
  \<comment> \<open>\<^verbatim>\<open>.*REQUIRE\s+(.*)\<close>\<close>
  "reRequire = cat [Star AnyChar, str ''REQUIRE'', Plus SpaceC, Group 1 (Star AnyChar)]"

definition userHostRegex :: regex where
  \<comment> \<open>\<^verbatim>\<open>'([^']*)'(@'([^']*)')?\<close>\<close>
  "userHostRegex =
     cat [str sq, Group 1 (Star (NoneOf sq)), str sq,
          Opt (Group 2 (cat [str ''@'', str sq, Group 3 (Star (NoneOf sq)), str sq]))]"

definition roleRegex :: regex where
  \<comment> \<open>\<^verbatim>\<open>'[^']+'\<close>\<close>
  "roleRegex = cat [str sq, Plus (NoneOf sq), str sq]"

definition roleGrantRegex :: regex where
  \<comment> \<open>\<^verbatim>\<open>GRANT\s+([\w\s,]+)\s+TO\s+(.+)\<close>\<close>
  "roleGrantRegex =
     cat [str ''GRANT'', Plus SpaceC, Group 1 (Plus wordSpaceComma), Plus SpaceC, str ''TO'',
          Plus SpaceC, Group 2 (Plus AnyChar)]"

definition reGrant :: regex where
  \<comment> \<open>\<^verbatim>\<open>\bGRANT OPTION\b|\bADMIN OPTION\b\<close>\<close>
  "reGrant = Alt (cat [WordB, str ''GRANT OPTION'', WordB]) (cat [WordB, str ''ADMIN OPTION'', WordB])"

definition procedureGrantRegex :: regex where
  \<comment> \<open>\<^verbatim>\<open>GRANT\s+([\w\s,]+)\s+ON\s+(FUNCTION|PROCEDURE)\s+([\w\s,]+)\s+TO\s+(.+)\<close>\<close>
  "procedureGrantRegex =
     cat [str ''GRANT'', Plus SpaceC, Group 1 (Plus wordSpaceComma), Plus SpaceC, str ''ON'',
          Plus SpaceC, Group 2 (Alt (str ''FUNCTION'') (str ''PROCEDURE'')), Plus SpaceC,
          Group 3 (Plus wordSpaceComma), Plus SpaceC, str ''TO'', Plus SpaceC,
          Group 4 (Plus AnyChar)]"

definition tableGrantRegex :: regex where
  \<comment> \<open>\<^verbatim>\<open>GRANT\s+([\w\s,]+)\s+ON\s+(.+)\s+TO\s+(.+)\<close>\<close>
  "tableGrantRegex =
     cat [str ''GRANT'', Plus SpaceC, Group 1 (Plus wordSpaceComma), Plus SpaceC, str ''ON'',
          Plus SpaceC, Group 2 (Plus AnyChar), Plus SpaceC, str ''TO'', Plus SpaceC,
          Group 3 (Plus AnyChar)]"

datatype error =
    MySQLError nat string   \<comment> \<open>\<^verbatim>\<open>*mysql.MySQLError\<close>: its \<^verbatim>\<open>Number\<close> and the text \<^verbatim>\<open>Error()\<close> returns\<close>
  | ErrorText string        \<comment> \<open>any other error value, by the text \<^verbatim>\<open>Error()\<close> returns\<close>

fun errorText :: "error \<Rightarrow> string" where
  "errorText (MySQLError number text) = text"
| "errorText (ErrorText text) = text"

definition parseUserOrRole :: "string \<Rightarrow> UserOrRole option" where
  \<comment> \<open>the step "Parse User or Role Statement" of \<^verbatim>\<open>parseGrantFromRow\<close>; \<^term>\<open>None\<close> where the
      source returns its error\<close>
  "parseUserOrRole grantStr =
     (let userHostMatches = FindStringSubmatch userHostRegex grantStr in
      if length userHostMatches = 4 then
        Some (User (Trim (userHostMatches ! 1) (''`'' @ sq @ '' ''))
                   (Trim (userHostMatches ! 3) (''`'' @ sq @ '' '')))
      else
        let roleMatches = FindStringSubmatch roleRegex grantStr in
        if length roleMatches = 1 then Some (Role (Trim (roleMatches ! 0) (''`'' @ sq @ '' '')))
        else None)"

definition parseGrantFromRow :: "string \<Rightarrow> error + MySQLGrant option" where
  "parseGrantFromRow grantStr =
     (if HasPrefix grantStr ''REVOKE'' then Inr None
      else
        let requireMatches = FindStringSubmatch reRequire grantStr;
            tlsOption = (if length requireMatches = 2 then requireMatches ! 1 else [])
        in case parseUserOrRole grantStr of
             None \<Rightarrow> Inl (ErrorText (''failed to parse grant statement: '' @ grantStr))
           | Some userOrRole \<Rightarrow>
               let roleMatches = FindStringSubmatch roleGrantRegex grantStr in
               if length roleMatches = 3 then
                 Inr (Some (RoleG \<lparr>
                   rRoles = map (\<lambda>role. Trim role (''`@%'' @ dq @ '' '')) (Split (roleMatches ! 1) CHR '',''),
                   rGrant = MatchString reGrant grantStr,
                   rUserOrRole = userOrRole,
                   rTLSOption = tlsOption \<rparr>))
               else
                 let procedureMatches = FindStringSubmatch procedureGrantRegex grantStr in
                 if length procedureMatches = 5 then
                   Inr (Some (ProcedureG \<lparr>
                     pDatabase = Trim (procedureMatches ! 3) (''`'' @ dq),
                     pObjectT = procedureMatches ! 2,
                     pCallableName = Trim (procedureMatches ! 3) (''`'' @ dq),
                     pPrivileges = normalizePerms (extractPermTypes (procedureMatches ! 1)),
                     pGrant = MatchString reGrant grantStr,
                     pUserOrRole = userOrRole,
                     pTLSOption = tlsOption \<rparr>))
                 else
                   let tableMatches = FindStringSubmatch tableGrantRegex grantStr in
                   if length tableMatches = 4 then
                     Inr (Some (TableG \<lparr>
                       tDatabase = Trim (tableMatches ! 2) (''`'' @ dq),
                       tTable = Trim (tableMatches ! 3) (''`'' @ dq),
                       tPrivileges = normalizePerms (extractPermTypes (tableMatches ! 1)),
                       tGrant = MatchString reGrant grantStr,
                       tUserOrRole = userOrRole,
                       tTLSOption = tlsOption \<rparr>))
                   else Inl (ErrorText (''failed to parse grant statement: '' @ grantStr)))"

section \<open>Declared configuration\<close>

text \<open>
  \<^verbatim>\<open>schema.ResourceData\<close>: the identifier and the value of every attribute of the
  schema (a set attribute by the list its \<^verbatim>\<open>List()\<close> gives), and the prior value of
  \<^verbatim>\<open>privileges\<close> that \<^verbatim>\<open>GetChange\<close> reads. \<^verbatim>\<open>GetOk\<close> reports an attribute as
  set when its value is not the zero value of its type.
\<close>

record ResourceData =
  d_Id :: string
  d_user :: string
  d_role :: string
  d_host :: string
  d_database :: string
  d_table :: string
  d_privileges :: "string list"
  d_roles :: "string list"
  d_grant :: bool
  d_tls_option :: string
  d_privileges_old :: "string list"

type_synonym Diagnostics = "string list"

definition kReProcedureWithoutDatabase :: regex where
  \<comment> \<open>\<^verbatim>\<open>(?i)^(function|procedure) ([^.]*)$\<close>\<close>
  "kReProcedureWithoutDatabase =
     cat [Bol, Group 1 (Alt (strI ''function'') (strI ''procedure'')), Ch (LitI CHR '' ''),
          Group 2 (Star (NoneOf ''.'')), Eol]"

definition kReProcedureWithDatabase :: regex where
  \<comment> \<open>\<^verbatim>\<open>(?i)^(function|procedure) ([^.]*)\.([^.]*)$\<close>\<close>
  "kReProcedureWithDatabase =
     cat [Bol, Group 1 (Alt (strI ''function'') (strI ''procedure'')), Ch (LitI CHR '' ''),
          Group 2 (Star (NoneOf ''.'')), Ch (LitI CHR ''.''), Group 3 (Star (NoneOf ''.'')), Eol]"

definition parseResourceFromData :: "ResourceData \<Rightarrow> MySQLGrant option \<times> Diagnostics" where
  "parseResourceFromData d =
     (let userOk = (d_user d \<noteq> []); hostOk = (d_host d \<noteq> []); roleOk = (d_role d \<noteq> []) in
      case (if userOk \<and> hostOk \<and> d_user d \<noteq> [] \<and> d_host d \<noteq> []
            then Some (User (d_user d) (d_host d))
            else if roleOk \<and> d_role d \<noteq> [] then Some (Role (d_role d))
            else None) of
        None \<Rightarrow> (None, [''One of user/host or role is required''])
      | Some userOrRole \<Rightarrow>
        let database = d_database d;
            tlsOption = d_tls_option d;
            grantOption = d_grant d
        in
          if d_roles d \<noteq> [] then
            (Some (RoleG \<lparr> rRoles = d_roles d, rGrant = grantOption, rUserOrRole = userOrRole,
                            rTLSOption = tlsOption \<rparr>), [])
          else if MatchString kReProcedureWithDatabase database
                  \<or> MatchString kReProcedureWithoutDatabase database then
            (if MatchString kReProcedureWithDatabase database then
               let matches = FindStringSubmatch kReProcedureWithDatabase database in
               (Some (ProcedureG \<lparr> pDatabase = matches ! 2, pObjectT = matches ! 1,
                        pCallableName = matches ! 3,
                        pPrivileges = normalizePerms (d_privileges d), pGrant = grantOption,
                        pUserOrRole = userOrRole, pTLSOption = tlsOption \<rparr>), [])
             else
               let matches = FindStringSubmatch kReProcedureWithoutDatabase database in
               (Some (ProcedureG \<lparr> pDatabase = matches ! 2, pObjectT = matches ! 1,
                        pCallableName = d_table d,
                        pPrivileges = normalizePerms (d_privileges d), pGrant = grantOption,
                        pUserOrRole = userOrRole, pTLSOption = tlsOption \<rparr>), []))
          else
            (Some (TableG \<lparr> tDatabase = database, tTable = d_table d,
                     tPrivileges = normalizePerms (d_privileges d), tGrant = grantOption,
                     tUserOrRole = userOrRole, tTLSOption = tlsOption \<rparr>), []))"

fun setUserOrRole :: "UserOrRole \<Rightarrow> ResourceData \<Rightarrow> ResourceData" where
  "setUserOrRole (User user host) d = d\<lparr> d_user := user, d_host := host \<rparr>"
| "setUserOrRole (Role role) d = d\<lparr> d_role := role \<rparr>"

fun setDataFromGrant :: "MySQLGrant \<Rightarrow> ResourceData \<Rightarrow> ResourceData" where
  "setDataFromGrant (TableG t) d =
     setUserOrRole (tUserOrRole t)
       (d\<lparr> d_database := tDatabase t, d_table := tTable t, d_grant := tGrant t,
           d_privileges := tPrivileges t, d_tls_option := tTLSOption t \<rparr>)"
| "setDataFromGrant (ProcedureG t) d =
     setUserOrRole (pUserOrRole t)
       (d\<lparr> d_database := pObjectT t @ '' '' @ pDatabase t @ ''.'' @ pCallableName t,
           d_table := [], d_grant := pGrant t, d_privileges := pPrivileges t,
           d_tls_option := pTLSOption t \<rparr>)"
| "setDataFromGrant (RoleG t) d =
     setUserOrRole (rUserOrRole t)
       (d\<lparr> d_grant := rGrant t, d_roles := rRoles t, d_tls_option := rTLSOption t \<rparr>)"

section \<open>The database\<close>

text \<open>
  The connection is a state machine the core cannot see into: a query returns rows of
  one string (reading a row into a string does not fail) or an error, an execution
  returns an error or none, and both may change the state of the server. The statements sent are recorded in order beside the state,
  so that a property can speak of what an operation issued.
\<close>

record 's DB =
  QueryContext :: "string \<Rightarrow> 's \<Rightarrow> (error + string list) \<times> 's"
  ExecContext :: "string \<Rightarrow> 's \<Rightarrow> error option \<times> 's"

datatype call = Query string | Exec string

type_synonym 's world = "'s \<times> call list"

definition dbQuery :: "'s DB \<Rightarrow> string \<Rightarrow> 's world \<Rightarrow> (error + string list) \<times> 's world" where
  "dbQuery db stmt w =
     (case QueryContext db stmt (fst w) of (res, s') \<Rightarrow> (res, (s', snd w @ [Query stmt])))"

definition dbExec :: "'s DB \<Rightarrow> string \<Rightarrow> 's world \<Rightarrow> error option \<times> 's world" where
  "dbExec db stmt w =
     (case ExecContext db stmt (fst w) of (err, s') \<Rightarrow> (err, (s', snd w @ [Exec stmt])))"

fun isNonExistingGrant :: "error option \<Rightarrow> bool" where
  \<comment> \<open>1141 = ER_NONEXISTING_GRANT, 1147 = ER_NONEXISTING_TABLE_GRANT,
      1403 = ER_NONEXISTING_PROC_GRANT\<close>
  "isNonExistingGrant (Some (MySQLError number text)) =
     (number = 1141 \<or> number = 1147 \<or> number = 1403)"
| "isNonExistingGrant err = False"

section \<open>Reconciliation engine\<close>

fun scanRows :: "UserOrRole \<Rightarrow> string list \<Rightarrow> MySQLGrant list \<Rightarrow> error + MySQLGrant list" where
  \<comment> \<open>the loop \<^verbatim>\<open>for rows.Next()\<close> of \<^verbatim>\<open>showUserGrants\<close>\<close>
  "scanRows userOrRole [] grants = Inr grants"
| "scanRows userOrRole (rawGrant # rows) grants =
     (case parseGrantFromRow rawGrant of
        Inl err \<Rightarrow> Inl err
      | Inr None \<Rightarrow> scanRows userOrRole rows grants
      | Inr (Some parsedGrant) \<Rightarrow>
          if SQLString (GetUserOrRole parsedGrant) \<noteq> SQLString userOrRole
          then scanRows userOrRole rows grants
          else scanRows userOrRole rows (grants @ [parsedGrant]))"

definition showUserGrants ::
  "'s DB \<Rightarrow> UserOrRole \<Rightarrow> 's world \<Rightarrow> (error + MySQLGrant list) \<times> 's world" where
  "showUserGrants db userOrRole w =
     (let sqlStatement = ''SHOW GRANTS FOR '' @ SQLString userOrRole in
      case dbQuery db sqlStatement w of
        (Inl err, w') \<Rightarrow>
          if isNonExistingGrant (Some err) then (Inr [], w')
          else (Inl (ErrorText (''showUserGrants - getting grants failed: '' @ errorText err)), w')
      | (Inr rows, w') \<Rightarrow> (scanRows userOrRole rows [], w'))"

fun conflictLoop :: "MySQLGrant \<Rightarrow> MySQLGrant list \<Rightarrow> bool" where
  \<comment> \<open>the loop of \<^verbatim>\<open>hasConflictingGrants\<close>\<close>
  "conflictLoop desiredGrant [] = False"
| "conflictLoop desiredGrant (dbGrant # allGrants) =
     (if GrantOption desiredGrant \<noteq> GrantOption dbGrant then conflictLoop desiredGrant allGrants
      else if TypeOf desiredGrant = TypeOf dbGrant then True
      else conflictLoop desiredGrant allGrants)"

text \<open>
  A method called on the nil interface value stops the program with a run-time panic;
  an operation that can reach such a call returns an outcome.
\<close>

datatype 'a outcome = Panic string | Return 'a

definition nilDereference :: string where
  "nilDereference = ''runtime error: invalid memory address or nil pointer dereference''"

definition hasConflictingGrants ::
  "'s DB \<Rightarrow> MySQLGrant option \<Rightarrow> 's world \<Rightarrow> (error + bool) outcome \<times> 's world" where
  "hasConflictingGrants db desiredGrant w =
     (case desiredGrant of
        None \<Rightarrow> (Panic nilDereference, w)
      | Some desired \<Rightarrow>
          (case showUserGrants db (GetUserOrRole desired) w of
             (Inl err, w') \<Rightarrow>
               (Return (Inl (ErrorText (''showGrant - getting all grants failed: '' @ errorText err))), w')
           | (Inr allGrants, w') \<Rightarrow> (Return (Inr (conflictLoop desired allGrants)), w')))"

section \<open>Resource operations\<close>

text \<open>
  What the operations take from their environment: the connection handle that
  \<^verbatim>\<open>getDatabaseFromMeta\<close> returns (with its error, if any), and whether the server
  version passes the test of \<^verbatim>\<open>supportsRoles\<close>.
\<close>

record 's Meta =
  metaDB :: "'s DB"
  metaErr :: "error option"
  metaHasRoles :: bool

definition getDatabaseFromMeta :: "'s Meta \<Rightarrow> 's DB \<times> error option" where
  "getDatabaseFromMeta meta = (metaDB meta, metaErr meta)"

definition supportsRoles :: "'s Meta \<Rightarrow> bool \<times> error option" where
  "supportsRoles meta = (metaHasRoles meta, None)"

fun fmtErr :: "error option \<Rightarrow> string" where
  \<comment> \<open>an error under the verbs \<^verbatim>\<open>%s\<close>, \<^verbatim>\<open>%v\<close> and \<^verbatim>\<open>%w\<close>\<close>
  "fmtErr None = ''<nil>''"
| "fmtErr (Some err) = errorText err"

fun FromErr :: "error option \<Rightarrow> Diagnostics" where
  \<comment> \<open>\<^verbatim>\<open>diag.FromErr\<close>\<close>
  "FromErr None = []"
| "FromErr (Some err) = [errorText err]"

fun isRoleGrant :: "MySQLGrant option \<Rightarrow> bool" where
  \<comment> \<open>the type assertion \<^verbatim>\<open>grant.(*RoleGrant)\<close>\<close>
  "isRoleGrant (Some (RoleG t)) = True"
| "isRoleGrant grant = False"

definition ReadGrant ::
  "'s Meta \<Rightarrow> ResourceData \<Rightarrow> 's world \<Rightarrow> (Diagnostics \<times> ResourceData) outcome \<times> 's world" where
  "ReadGrant meta d w =
     (let (db, err) = getDatabaseFromMeta meta in
      if err \<noteq> None then (Return ([''failed getting database from Meta: '' @ fmtErr err], d), w)
      else
        let (grant, diagErr) = parseResourceFromData d in
        if diagErr \<noteq> [] then (Return (diagErr, d), w)
        else
          (case grant of
             None \<Rightarrow> (Panic nilDereference, w)
           | Some g \<Rightarrow>
               (case showUserGrants db (GetUserOrRole g) w of
                  (Inl err, w') \<Rightarrow>
                    (Return ([''showGrant - getting all grants failed: '' @ errorText err], d), w')
                | (Inr allGrants, w') \<Rightarrow>
                    if length allGrants = 0 then (Return ([], d\<lparr> d_Id := [] \<rparr>), w')
                    else (Return ([], setDataFromGrant g d), w'))))"

definition CreateGrant ::
  "'s Meta \<Rightarrow> ResourceData \<Rightarrow> 's world \<Rightarrow> (Diagnostics \<times> ResourceData) outcome \<times> 's world" where
  "CreateGrant meta d w =
     (let (db, err) = getDatabaseFromMeta meta in
      if err \<noteq> None then (Return (FromErr err, d), w)
      else
        let (grant, diagErr) = parseResourceFromData d in
        if err \<noteq> None then (Return (diagErr, d), w)
        else
          let (hasRolesSupport, err) = supportsRoles meta in
          if err \<noteq> None then (Return ([''failed getting role support: '' @ fmtErr err], d), w)
          else if isRoleGrant grant \<and> \<not> hasRolesSupport then
            (Return ([''role grants are not supported by this version of MySQL''], d), w)
          else
            (case hasConflictingGrants db grant w of
               (Panic msg, w') \<Rightarrow> (Panic msg, w')
             | (Return (Inl err), w') \<Rightarrow>
                 (Return ([''failed showing grants: '' @ errorText err], d), w')
             | (Return (Inr hasConflicts), w') \<Rightarrow>
                 (case grant of
                    None \<Rightarrow> (Panic nilDereference, w')
                  | Some g \<Rightarrow>
                      if hasConflicts then
                        (Return ([''user/role '' @ fmtUserOrRole (GetUserOrRole g)
                                  @ '' already has unmanaged grant - import it first''], d), w')
                      else
                        let stmtSQL = SQLGrantStatement g in
                        (case dbExec db stmtSQL w' of
                           (Some err, w'') \<Rightarrow>
                             (Return ([''Error running SQL ('' @ stmtSQL @ ''): '' @ errorText err], d),
                              w'')
                         | (None, w'') \<Rightarrow> ReadGrant meta (d\<lparr> d_Id := GetId g \<rparr>) w''))))"

definition Difference :: "string list \<Rightarrow> string list \<Rightarrow> string list" where
  \<comment> \<open>\<^verbatim>\<open>s.Difference(other).List()\<close> on sets given by their lists\<close>
  "Difference s other = filter (\<lambda>x. x \<notin> set other) s"

definition updatePrivileges ::
  "'s DB \<Rightarrow> ResourceData \<Rightarrow> MySQLGrant \<Rightarrow> 's world \<Rightarrow> error option \<times> 's world" where
  "updatePrivileges db d grant w =
     (let oldPrivs = d_privileges_old d;
          newPrivs = d_privileges d;
          grantIfs = Difference newPrivs oldPrivs;
          revokeIfs = Difference oldPrivs newPrivs
      in
        case (if length revokeIfs > 0 then
                (case SQLPartialRevokePrivilegesStatement grant revokeIfs of
                   None \<Rightarrow> (Some (ErrorText ''grant does not support partial privilege revokes''), w)
                 | Some sqlCommand \<Rightarrow> dbExec db sqlCommand w)
              else (None, w)) of
          (Some err, w') \<Rightarrow> (Some err, w')
        | (None, w') \<Rightarrow>
            if length grantIfs > 0 then dbExec db (SQLGrantStatement grant) w' else (None, w'))"

definition HasChangePrivileges :: "ResourceData \<Rightarrow> bool" where
  \<comment> \<open>\<^verbatim>\<open>d.HasChange("privileges")\<close>: the old and the new set differ\<close>
  "HasChangePrivileges d = (set (d_privileges_old d) \<noteq> set (d_privileges d))"

definition UpdateGrant ::
  "'s Meta \<Rightarrow> ResourceData \<Rightarrow> 's world \<Rightarrow> Diagnostics outcome \<times> 's world" where
  "UpdateGrant meta d w =
     (let (db, err) = getDatabaseFromMeta meta in
      if err \<noteq> None then (Return (FromErr err), w)
      else if err \<noteq> None then (Return [''failed getting user or role: '' @ fmtErr err], w)
      else if HasChangePrivileges d then
        let (grant, diagErr) = parseResourceFromData d in
        if diagErr \<noteq> [] then (Return diagErr, w)
        else
          (case grant of
             None \<Rightarrow> (Panic nilDereference, w)
           | Some g \<Rightarrow>
               (case updatePrivileges db d g w of
                  (Some err, w') \<Rightarrow> (Return [''failed updating privileges: '' @ errorText err], w')
                | (None, w') \<Rightarrow> (Return [], w')))
      else (Return [], w))"

definition DeleteGrant ::
  "'s Meta \<Rightarrow> ResourceData \<Rightarrow> 's world \<Rightarrow> Diagnostics outcome \<times> 's world" where
  "DeleteGrant meta d w =
     (let (db, err) = getDatabaseFromMeta meta in
      if err \<noteq> None then (Return (FromErr err), w)
      else
        let (grant, diagErr) = parseResourceFromData d in
        if err \<noteq> None then (Return diagErr, w)
        else
          (case grant of
             None \<Rightarrow> (Panic nilDereference, w)
           | Some g \<Rightarrow>
               let sqlStatement = SQLRevokeStatement g in
               (case dbExec db sqlStatement w of
                  (None, w') \<Rightarrow> (Return [], w')
                | (Some err, w') \<Rightarrow>
                    if \<not> isNonExistingGrant (Some err) then
                      (Return [''error revoking ALL ('' @ sqlStatement @ ''): '' @ errorText err], w')
                    else (Return [], w'))))"

fun importLoop :: "bool \<Rightarrow> string \<Rightarrow> string \<Rightarrow> MySQLGrant list \<Rightarrow> MySQLGrant option" where
  \<comment> \<open>the loop of \<^verbatim>\<open>ImportGrant\<close>: the first grant that passes the three tests\<close>
  "importLoop grantOption database table [] = None"
| "importLoop grantOption database table (grant # grants) =
     (if GrantOption grant \<noteq> grantOption then importLoop grantOption database table grants
      else if (case GetDatabase grant of
                 None \<Rightarrow> database \<noteq> []
               | Some dbName \<Rightarrow> dbName \<noteq> database)
        then importLoop grantOption database table grants
      else if (case GetTable grant of
                 None \<Rightarrow> table \<noteq> []
               | Some tableName \<Rightarrow> tableName \<noteq> table)
        then importLoop grantOption database table grants
      else Some grant)"

definition emptyData :: ResourceData where
  \<comment> \<open>\<^verbatim>\<open>resourceGrant().Data(nil)\<close>: no identifier, every attribute at its default\<close>
  "emptyData = \<lparr> d_Id = [], d_user = [], d_role = [], d_host = ''localhost'', d_database = [],
       d_table = ''*'', d_privileges = [], d_roles = [], d_grant = False,
       d_tls_option = ''NONE'', d_privileges_old = [] \<rparr>"

definition ImportGrant ::
  "'s Meta \<Rightarrow> ResourceData \<Rightarrow> 's world \<Rightarrow> (error + ResourceData list) \<times> 's world" where
  "ImportGrant meta d w =
     (let userHostDatabaseTable = Split (d_Id d) CHR ''@'' in
      if length userHostDatabaseTable \<noteq> 4 \<and> length userHostDatabaseTable \<noteq> 5 then
        (Inl (ErrorText (''wrong ID format '' @ d_Id d @
           '' - expected user@host@database@table (and optionally ending @ to signify grant option) where some parts can be empty)'')),
         w)
      else
        let user = userHostDatabaseTable ! 0;
            host = userHostDatabaseTable ! 1;
            database = userHostDatabaseTable ! 2;
            table = userHostDatabaseTable ! 3;
            grantOption = (length userHostDatabaseTable = 5);
            userOrRole = User user host;
            (db, err) = getDatabaseFromMeta meta
        in
          (case err of
             Some e \<Rightarrow> (Inl e, w)
           | None \<Rightarrow>
               (case showUserGrants db userOrRole w of
                  (Inl e, w') \<Rightarrow> (Inl e, w')
                | (Inr grants, w') \<Rightarrow>
                    (case importLoop grantOption database table grants of
                       Some grant \<Rightarrow> (Inr [setDataFromGrant grant emptyData], w')
                     | None \<Rightarrow> (Inr [], w')))))"

section \<open>Example values\<close>

text \<open>
  The values the examples of the specification name: the login \<^verbatim>\<open>'bob'@'%'\<close>, its table
  grant on \<^verbatim>\<open>app.users\<close>, the grant statement of that grant, the declared configuration
  of the update scenario, and two databases: one that answers every query with given
  rows and accepts every statement, one that fails every call with a given error.
\<close>

definition bob :: UserOrRole where
  "bob = User ''bob'' ''%''"

definition exampleGrant :: TablePrivilegeGrant where
  "exampleGrant =
     \<lparr> tDatabase = ''app'', tTable = ''users'', tPrivileges = [''SELECT'', ''INSERT''],
       tGrant = False, tUserOrRole = bob, tTLSOption = [] \<rparr>"

definition exampleRow :: string where
  "exampleRow = ''GRANT SELECT, INSERT ON `app`.`users` TO '' @ sq @ ''bob'' @ sq @ ''@'' @ sq @ ''%'' @ sq"

definition roleRow :: string where
  "roleRow = ''GRANT '' @ sq @ ''editor'' @ sq @ '', '' @ sq @ ''viewer'' @ sq @ '' TO ''
               @ sq @ ''bob'' @ sq @ ''@'' @ sq @ ''%'' @ sq"

definition bareNameRow :: string where
  "bareNameRow = ''GRANT SELECT ON *.* TO '' @ sq @ ''app_role'' @ sq"

definition exampleData :: ResourceData where
  "exampleData =
     \<lparr> d_Id = [], d_user = ''bob'', d_role = [], d_host = ''%'', d_database = ''app'',
       d_table = ''users'', d_privileges = [''SELECT'', ''UPDATE''], d_roles = [],
       d_grant = False, d_tls_option = ''NONE'', d_privileges_old = [''SELECT'', ''INSERT''] \<rparr>"

definition updatedGrant :: MySQLGrant where
  "updatedGrant =
     TableG \<lparr> tDatabase = ''app'', tTable = ''users'', tPrivileges = [''SELECT'', ''UPDATE''],
              tGrant = False, tUserOrRole = bob, tTLSOption = ''NONE'' \<rparr>"

definition revokeInsert :: string where
  "revokeInsert = ''REVOKE INSERT ON `app`.`users` FROM '' @ sq @ ''bob'' @ sq @ ''@'' @ sq @ ''%'' @ sq"

definition grantSelectUpdate :: string where
  "grantSelectUpdate =
     ''GRANT SELECT, UPDATE ON `app`.`users` TO '' @ sq @ ''bob'' @ sq @ ''@'' @ sq @ ''%'' @ sq"

definition parsedExampleRow :: MySQLGrant where
  "parsedExampleRow =
     TableG \<lparr> tDatabase = ''app`.`users'', tTable = sq @ ''bob'' @ sq @ ''@'' @ sq @ ''%'' @ sq,
              tPrivileges = [''SELECT'', ''INSERT''], tGrant = False, tUserOrRole = bob,
              tTLSOption = [] \<rparr>"

definition showGrantsForBob :: string where
  "showGrantsForBob = ''SHOW GRANTS FOR '' @ sq @ ''bob'' @ sq @ ''@'' @ sq @ ''%'' @ sq"

definition revokeSelectUpdate :: string where
  "revokeSelectUpdate =
     ''REVOKE SELECT, UPDATE ON `app`.`users` FROM '' @ sq @ ''bob'' @ sq @ ''@'' @ sq @ ''%'' @ sq"

definition rowsDB :: "string list \<Rightarrow> unit DB" where
  "rowsDB rows =
     \<lparr> QueryContext = (\<lambda>stmt s. (Inr rows, s)), ExecContext = (\<lambda>stmt s. (None, s)) \<rparr>"

definition failingDB :: "error \<Rightarrow> unit DB" where
  "failingDB err =
     \<lparr> QueryContext = (\<lambda>stmt s. (Inl err, s)), ExecContext = (\<lambda>stmt s. (Some err, s)) \<rparr>"

definition metaOf :: "unit DB \<Rightarrow> unit Meta" where
  "metaOf db = \<lparr> metaDB = db, metaErr = None, metaHasRoles = True \<rparr>"

definition start :: "unit world" where
  "start = ((), [])"

section \<open>Properties of the tokenizer\<close>

lemma cutOutsideParens_nonempty: "cutOutsideParens inP g \<noteq> []"
  by (induction g arbitrary: inP) (auto split: list.splits)

lemma extractLoop_spec:
  "(inP \<longrightarrow> cur \<noteq> []) \<Longrightarrow>
   extractLoop g grants inP cur =
     grants @ (case cutOutsideParens inP g of
                 [] \<Rightarrow> []
               | t # ts \<Rightarrow> (if cur = [] then dropWhile IsSpace t else cur @ t)
                           # map (dropWhile IsSpace) ts)"
proof (induction g arbitrary: grants inP cur)
  case Nil
  then show ?case by simp
next
  case (Cons b g)
  obtain t ts where ts: "cutOutsideParens (parenAfter inP b) g = t # ts"
    using cutOutsideParens_nonempty by (cases "cutOutsideParens (parenAfter inP b) g") auto
  obtain u us where us: "cutOutsideParens inP g = u # us"
    using cutOutsideParens_nonempty by (cases "cutOutsideParens inP g") auto
  show ?case
  proof (cases "b = CHR '',''")
    case True
    then show ?thesis
      using Cons.prems Cons.IH[of inP "cur @ [b]" grants] Cons.IH[of inP "[]" "grants @ [cur]"] us
      by (auto simp: IsSpace_def)
  next
    case False
    note nc = False
    show ?thesis
    proof (cases "b = CHR ''(''")
      case True
      then show ?thesis
        using Cons.IH[of True "cur @ [b]" grants] ts by (auto simp: IsSpace_def)
    next
      case False
      note no = False
      show ?thesis
      proof (cases "b = CHR '')''")
        case True
        then show ?thesis
          using Cons.IH[of False "cur @ [b]" grants] ts by (auto simp: IsSpace_def)
      next
        case False
        then show ?thesis
          using nc no Cons.prems Cons.IH[of inP cur grants] Cons.IH[of inP "cur @ [b]" grants] ts
          by auto
      qed
    qed
  qed
qed

text \<open>
  C10. For every comma-joined privilege string the tokenizer returns the pieces between
  the commas that stand outside parentheses (a comma after an opening and before the
  next closing parenthesis stays in its token), each without its leading white space;
  on \<^verbatim>\<open>SELECT (a,b), INSERT\<close> these are the two tokens \<^verbatim>\<open>SELECT (a,b)\<close> and
  \<^verbatim>\<open>INSERT\<close>.
\<close>

theorem extractPermTypes_tokens:
  "extractPermTypes g = specTokens g \<and>
   extractPermTypes ''SELECT (a,b), INSERT'' = [''SELECT (a,b)'', ''INSERT'']"
proof
  show "extractPermTypes g = specTokens g"
    using extractLoop_spec[of False "[]" g "[]"] cutOutsideParens_nonempty[of False g]
    by (auto simp: extractPermTypes_def specTokens_def split: list.splits)
  show "extractPermTypes ''SELECT (a,b), INSERT'' = [''SELECT (a,b)'', ''INSERT'']"
    by (simp add: extractPermTypes_def IsSpace_def)
qed

section \<open>Properties of the matcher\<close>

lemma runs_star_until:
  assumes indep: "\<And>p1 p2 s c. F (p1, s, c) = F (p2, s, c)"
      and stop: "\<And>p s c. (case s of [] \<Rightarrow> True | x # _ \<Rightarrow> inClass k x) \<Longrightarrow> F (p, s, c) = []"
  shows "concat (map F (rev (runs k p t c))) = F (p, dropWhile (inClass k) t, c)"
proof (induction t arbitrary: p)
  case Nil
  then show ?case by simp
next
  case (Cons x xs)
  show ?case
  proof (cases "inClass k x")
    case True
    then have "F (p, x # xs, c) = []" using stop[of "x # xs" p c] by simp
    then show ?thesis using True Cons.IH[of "Some x"] indep[of "Some x" _ c p] by simp
  next
    case False
    then show ?thesis by simp
  qed
qed

lemma runs_star_last:
  assumes indep: "\<And>p1 p2 s c. F (p1, s, c) = F (p2, s, c)"
      and only: "\<And>p s c. s \<noteq> [e] \<Longrightarrow> F (p, s, c) = []"
      and e: "inClass k e"
  shows "concat (map F (rev (runs k p t c))) =
           (if t \<noteq> [] \<and> last t = e \<and> (\<forall>x\<in>set (butlast t). inClass k x) then F (p, [e], c) else [])"
proof (induction t arbitrary: p)
  case Nil
  then show ?case using only[of "[]"] by simp
next
  case (Cons x xs)
  show ?case
  proof (cases "xs = []")
    case True
    then show ?thesis using only[of "[]"] only[of "[x]"] e by auto
  next
    case False
    then have F0: "F (p, x # xs, c) = []" using only[of "x # xs"] by simp
    show ?thesis
    proof (cases "inClass k x")
      case True
      have "concat (map F (rev (runs k p (x # xs) c))) = concat (map F (rev (runs k (Some x) xs c)))"
        using True F0 by simp
      also have "\<dots> = (if xs \<noteq> [] \<and> last xs = e \<and> (\<forall>x\<in>set (butlast xs). inClass k x)
                        then F (Some x, [e], c) else [])"
        by (rule Cons.IH)
      also have "\<dots> = (if x # xs \<noteq> [] \<and> last (x # xs) = e \<and> (\<forall>y\<in>set (butlast (x # xs)). inClass k y)
                        then F (p, [e], c) else [])"
        using False True indep[of "Some x" "[e]" c p] by simp
      finally show ?thesis .
    next
      case False
      then show ?thesis using F0 \<open>xs \<noteq> []\<close> by simp
    qed
  qed
qed


lemma steps_group_star_seq:
  "steps (Seq (Group n (Star k)) r) (p, s, c) =
     concat (map (\<lambda>(p', s', c'). steps r (p', s', (n, take (length s - length s') s) # c'))
                 (rev (runs k p s c)))"
  by (simp add: rev_map map_map comp_def case_prod_unfold)

lemma steps_ch_seq:
  "steps (Seq (Ch k) r) (p, s, c) =
     (case s of [] \<Rightarrow> [] | x # xs \<Rightarrow> if inClass k x then steps r (Some x, xs, c) else [])"
  by (simp split: list.splits)

lemma search_bol_later: "search (Seq Bol r) (Some x) s = None"
  by (induction s arbitrary: x) auto

lemma search_bol_start:
  "search (Seq Bol r) None s = (case steps r (None, s, []) of [] \<Rightarrow> None | st # _ \<Rightarrow> Some (s, st))"
  by (cases s) (auto simp: search_bol_later split: list.splits)

lemma columns_tail:
  "steps (Seq (Group 2 (Star AnyChar)) (Seq (Ch (Lit CHR '')'')) Eol)) (p, t, c) =
     (if t \<noteq> [] \<and> last t = CHR '')'' \<and> CHR 0x0A \<notin> set (butlast t)
      then [(Some CHR '')'', [], (2, butlast t) # c)] else [])"
proof -
  let ?F = "\<lambda>(p', s', c'). steps (Seq (Ch (Lit CHR '')'')) Eol)
               (p', s', (2, take (length t - length s') t) # c')"
  have "steps (Seq (Group 2 (Star AnyChar)) (Seq (Ch (Lit CHR '')'')) Eol)) (p, t, c) =
          concat (map ?F (rev (runs AnyChar p t c)))"
    by (rule steps_group_star_seq)
  also have "\<dots> = (if t \<noteq> [] \<and> last t = CHR '')'' \<and> (\<forall>x\<in>set (butlast t). inClass AnyChar x)
                    then ?F (p, [CHR '')''], c) else [])"
  proof (rule runs_star_last)
    show "\<And>p1 p2 s c. ?F (p1, s, c) = ?F (p2, s, c)"
      by (simp split: list.splits)
    show "\<And>p s c. s \<noteq> [CHR '')''] \<Longrightarrow> ?F (p, s, c) = []"
      by (auto split: list.splits)
    show "inClass AnyChar CHR '')''" by simp
  qed
  also have "\<dots> = (if t \<noteq> [] \<and> last t = CHR '')'' \<and> CHR 0x0A \<notin> set (butlast t)
                    then [(Some CHR '')'', [], (2, butlast t) # c)] else [])"
    by (auto simp: butlast_conv_take)
  finally show ?thesis .
qed

lemma columns_head:
  "steps (Seq (Group 1 (Star (NoneOf ''(''))) (Seq (Ch (Lit CHR ''('')) r)) (p, s, c) =
     (case dropWhile (\<lambda>x. x \<noteq> CHR ''('') s of
        [] \<Rightarrow> []
      | x # t \<Rightarrow> steps r (Some CHR ''('', t, (1, takeWhile (\<lambda>x. x \<noteq> CHR ''('') s) # c))"
proof -
  let ?k = "NoneOf ''(''"
  let ?F = "\<lambda>(p', s', c'). steps (Seq (Ch (Lit CHR ''('')) r)
               (p', s', (1, take (length s - length s') s) # c')"
  have k: "inClass ?k = (\<lambda>x. x \<noteq> CHR ''('')" by (rule ext) simp
  have "steps (Seq (Group 1 (Star ?k)) (Seq (Ch (Lit CHR ''('')) r)) (p, s, c) =
          concat (map ?F (rev (runs ?k p s c)))"
    by (rule steps_group_star_seq)
  also have "\<dots> = ?F (p, dropWhile (inClass ?k) s, c)"
  proof (rule runs_star_until)
    show "\<And>p1 p2 s c. ?F (p1, s, c) = ?F (p2, s, c)"
      by (simp split: list.splits)
    show "\<And>p s c. (case s of [] \<Rightarrow> True | x # _ \<Rightarrow> inClass ?k x) \<Longrightarrow> ?F (p, s, c) = []"
      by (auto split: list.splits)
  qed
  also have "\<dots> = (case dropWhile (\<lambda>x. x \<noteq> CHR ''('') s of
        [] \<Rightarrow> []
      | x # t \<Rightarrow> steps r (Some CHR ''('', t, (1, takeWhile (\<lambda>x. x \<noteq> CHR ''('') s) # c))"
  proof (cases "dropWhile (\<lambda>x. x \<noteq> CHR ''('') s")
    case Nil
    then show ?thesis unfolding k by (simp del: dropWhile_eq_Nil_conv)
  next
    case (Cons x t)
    have x: "x = CHR ''(''" using Cons hd_dropWhile[of "\<lambda>x. x \<noteq> CHR ''(''" s] by auto
    have "length s = length (takeWhile (\<lambda>x. x \<noteq> CHR ''('') s) + length (dropWhile (\<lambda>x. x \<noteq> CHR ''('') s)"
      by (metis length_append takeWhile_dropWhile_id)
    then have "length s - length (x # t) = length (takeWhile (\<lambda>x. x \<noteq> CHR ''('') s)"
      using Cons by simp
    then have "take (length s - length (x # t)) s = takeWhile (\<lambda>x. x \<noteq> CHR ''('') s"
      by (metis append_eq_conv_conj takeWhile_dropWhile_id)
    then show ?thesis unfolding k using Cons x by simp
  qed
  finally show ?thesis .
qed

lemma columnsRegex_match:
  "FindStringSubmatch columnsRegex s =
     (let a = takeWhile (\<lambda>x. x \<noteq> CHR ''('') s; t = tl (dropWhile (\<lambda>x. x \<noteq> CHR ''('') s) in
      if t \<noteq> [] \<and> last t = CHR '')'' \<and> CHR 0x0A \<notin> set (butlast t)
      then [s, a, butlast t] else [])"
proof -
  have "steps (cat [Group 1 (Star (NoneOf ''('')), Ch (Lit CHR ''(''), Group 2 (Star AnyChar),
          Ch (Lit CHR '')''), Eol]) (None, s, []) =
        (let a = takeWhile (\<lambda>x. x \<noteq> CHR ''('') s; t = tl (dropWhile (\<lambda>x. x \<noteq> CHR ''('') s) in
         if t \<noteq> [] \<and> last t = CHR '')'' \<and> CHR 0x0A \<notin> set (butlast t)
         then [(Some CHR '')'', [], [(2, butlast t), (1, a)])] else [])"
  proof (cases "dropWhile (\<lambda>x. x \<noteq> CHR ''('') s")
    case Nil
    then show ?thesis
      by (simp only: cat.simps columns_head columns_tail Let_def) (simp del: dropWhile_eq_Nil_conv)
  next
    case (Cons x t)
    then show ?thesis
      by (simp only: cat.simps columns_head columns_tail Let_def) (simp del: dropWhile_eq_Nil_conv)
  qed
  then show ?thesis
    by (simp add: FindStringSubmatch_def columnsRegex_def search_bol_start Let_def)
qed

section \<open>Properties of the canonicalizer\<close>

lemma upper_lower_disjoint: "set upperLetters \<inter> set lowerLetters = {}"
  by (simp add: upperLetters_def lowerLetters_def)

lemma toUpperRune_fix: "c \<notin> set lowerLetters \<Longrightarrow> toUpperRune c = c"
proof -
  assume "c \<notin> set lowerLetters"
  moreover have "length lowerLetters = length upperLetters"
    by (simp add: upperLetters_def lowerLetters_def)
  ultimately have "map_of (zip lowerLetters upperLetters) c = None"
    by (simp add: map_of_zip_is_None)
  then show ?thesis by (simp add: toUpperRune_def)
qed

lemma toUpperRune_cases: "toUpperRune c = c \<or> toUpperRune c \<in> set upperLetters"
proof (cases "map_of (zip lowerLetters upperLetters) c")
  case None
  then show ?thesis by (simp add: toUpperRune_def)
next
  case (Some u)
  then have "(c, u) \<in> set (zip lowerLetters upperLetters)" by (rule map_of_SomeD)
  then have "u \<in> set upperLetters" by (rule set_zip_rightD)
  then show ?thesis using Some by (simp add: toUpperRune_def)
qed

lemma toUpperRune_idem: "toUpperRune (toUpperRune c) = toUpperRune c"
  using toUpperRune_cases[of c] toUpperRune_fix[of "toUpperRune c"] upper_lower_disjoint by auto

lemma punct_not_letter: "c \<in> set ''` (),'' \<Longrightarrow> c \<notin> set lowerLetters \<and> c \<notin> set upperLetters"
  by (auto simp: upperLetters_def lowerLetters_def)

lemma toUpperRune_punct:
  "toUpperRune c \<in> set ''` (),'' \<longleftrightarrow> c \<in> set ''` (),''"
  using toUpperRune_cases[of c] toUpperRune_fix[of c] punct_not_letter[of c]
    punct_not_letter[of "toUpperRune c"] by metis

lemma toUpperRune_punct_fix: "c \<in> set ''` (),'' \<Longrightarrow> toUpperRune c = c"
  using toUpperRune_fix punct_not_letter by blast

lemma dropWhile_none: "\<forall>c\<in>set s. \<not> P c \<Longrightarrow> dropWhile P s = s"
  by (cases s) auto

lemma Trim_id: "\<forall>c\<in>set s. c \<notin> set cs \<Longrightarrow> Trim s cs = s"
  by (simp add: Trim_def dropWhile_none)

lemma splitAcc_nonempty: "splitAcc sep cur s \<noteq> []"
  by (induction s arbitrary: cur) auto

lemma splitAcc_parts:
  "x \<in> set (splitAcc sep cur s) \<Longrightarrow> set x \<subseteq> set cur \<union> set s \<and> (sep \<notin> set cur \<longrightarrow> sep \<notin> set x)"
proof (induction s arbitrary: cur)
  case Nil
  then show ?case by simp
next
  case (Cons c s)
  show ?case
  proof (cases "c = sep")
    case True
    then have "x = cur \<or> x \<in> set (splitAcc sep [] s)" using Cons.prems by simp
    then show ?thesis using Cons.IH[of "[]"] by auto
  next
    case False
    then have "x \<in> set (splitAcc sep (cur @ [c]) s)" using Cons.prems by simp
    then show ?thesis using Cons.IH[of "cur @ [c]"] False by auto
  qed
qed

lemma Split_parts: "x \<in> set (Split b sep) \<Longrightarrow> set x \<subseteq> set b \<and> sep \<notin> set x"
  using splitAcc_parts[of x sep "[]" b] by (simp add: Split_def)

lemma splitAcc_append: "sep \<notin> set y \<Longrightarrow> splitAcc sep cur (y @ rest) = splitAcc sep (cur @ y) rest"
  by (induction y arbitrary: cur) auto

lemma splitAcc_Join:
  "\<forall>x\<in>set (y # ys). sep \<notin> set x \<Longrightarrow> splitAcc sep cur (Join (y # ys) [sep]) = (cur @ y) # ys"
proof (induction ys arbitrary: y cur)
  case Nil
  then show ?case using splitAcc_append[of sep y cur "[]"] by simp
next
  case (Cons z zs)
  have "splitAcc sep cur (Join (y # z # zs) [sep]) = splitAcc sep (cur @ y) (sep # Join (z # zs) [sep])"
    using Cons.prems splitAcc_append[of sep y cur] by simp
  also have "\<dots> = (cur @ y) # splitAcc sep [] (Join (z # zs) [sep])" by simp
  also have "\<dots> = (cur @ y) # z # zs" using Cons.IH[of z "[]"] Cons.prems by simp
  finally show ?case .
qed

lemma Split_Join: "xs \<noteq> [] \<Longrightarrow> \<forall>x\<in>set xs. sep \<notin> set x \<Longrightarrow> Split (Join xs [sep]) sep = xs"
  using splitAcc_Join[of "hd xs" "tl xs" sep "[]"] by (cases xs) (auto simp: Split_def)

lemma filter_Join: "filter P (Join xs sep) = Join (map (filter P) xs) (filter P sep)"
  by (induction xs sep rule: Join.induct) auto

lemma map_Join: "map f (Join xs sep) = Join (map (map f) xs) (map f sep)"
  by (induction xs sep rule: Join.induct) auto

lemma set_Join: "set (Join xs sep) \<subseteq> (\<Union>x\<in>set xs. set x) \<union> set sep"
  by (induction xs sep rule: Join.induct) auto

lemma stripSpacesBackticks_id:
  "\<forall>c\<in>set s. c \<notin> set ''` '' \<Longrightarrow> stripSpacesBackticks s = s"
  by (simp add: stripSpacesBackticks_def filter_id_conv)

lemma normalizeColumnOrder_ALL: "normalizeColumnOrder ''ALL PRIVILEGES'' = ''ALL PRIVILEGES''"
  by (simp add: normalizeColumnOrder_def columnsRegex_match)

lemma normalizePerm_ALL: "normalizePerm ''ALL PRIVILEGES'' = ''ALL PRIVILEGES''"
  by (simp add: normalizePerm_def stripSpacesBackticks_def ToUpper_def toUpperRune_def
      lowerLetters_def upperLetters_def normalizeColumnOrder_ALL)

lemma normalizePerm_clean:
  assumes clean: "\<forall>c\<in>set s. c \<notin> set ''` '' \<and> toUpperRune c = c"
      and nall: "s \<noteq> ''ALL''" "s \<noteq> ''ALLPRIVILEGES''"
  shows "normalizePerm s = normalizeColumnOrder s"
proof -
  have "stripSpacesBackticks s = s" using clean by (simp add: stripSpacesBackticks_id)
  moreover have "ToUpper s = s" using clean by (simp add: ToUpper_def map_idI)
  ultimately show ?thesis using nall by (simp add: normalizePerm_def)
qed

lemma normalizeColumnOrder_fix:
  assumes clean: "\<forall>c\<in>set s. c \<notin> set ''` '' \<and> toUpperRune c = c"
      and nall: "s \<noteq> ''ALL''" "s \<noteq> ''ALLPRIVILEGES''"
  shows "normalizePerm (normalizeColumnOrder s) = normalizeColumnOrder s"
proof (cases "FindStringSubmatch columnsRegex s = []")
  case True
  then have same: "normalizeColumnOrder s = s" by (simp add: normalizeColumnOrder_def)
  show ?thesis using normalizePerm_clean[OF clean nall] same by simp
next
  case False
  define a where "a = takeWhile (\<lambda>x. x \<noteq> CHR ''('') s"
  define t where "t = tl (dropWhile (\<lambda>x. x \<noteq> CHR ''('') s)"
  define b where "b = butlast t"
  have cond: "t \<noteq> [] \<and> last t = CHR '')'' \<and> CHR 0x0A \<notin> set (butlast t)"
    using False unfolding columnsRegex_match a_def t_def Let_def by (auto split: if_splits)
  have m: "FindStringSubmatch columnsRegex s = [s, a, b]"
    using cond unfolding columnsRegex_match a_def t_def b_def Let_def by simp
  have dw: "dropWhile (\<lambda>x. x \<noteq> CHR ''('') s \<noteq> []"
  proof
    assume "dropWhile (\<lambda>x. x \<noteq> CHR ''('') s = []"
    then have "t = []" unfolding t_def by (simp del: dropWhile_eq_Nil_conv)
    then show False using cond by simp
  qed
  have sdec: "s = a @ CHR ''('' # t"
  proof -
    have "hd (dropWhile (\<lambda>x. x \<noteq> CHR ''('') s) = CHR ''(''"
      using dw hd_dropWhile[of "\<lambda>x. x \<noteq> CHR ''(''" s] by auto
    then have "dropWhile (\<lambda>x. x \<noteq> CHR ''('') s = CHR ''('' # t"
      using dw t_def by (cases "dropWhile (\<lambda>x. x \<noteq> CHR ''('') s") auto
    then show ?thesis using takeWhile_dropWhile_id[of "\<lambda>x. x \<noteq> CHR ''(''" s] a_def by simp
  qed
  have tdec: "t = b @ '')''" using cond b_def by (metis append_butlast_last_id)
  have a_no: "\<forall>x\<in>set a. x \<noteq> CHR ''(''"
    unfolding a_def by (auto dest: set_takeWhileD)
  have a_clean: "\<forall>c\<in>set a. c \<notin> set ''` '' \<and> toUpperRune c = c"
    using clean sdec by (metis Un_iff set_append)
  have b_sub: "set b \<subseteq> set s" using sdec tdec by auto
  have b_clean: "\<forall>c\<in>set b. c \<notin> set ''` '' \<and> toUpperRune c = c"
    using clean b_sub by blast
  have b_nl: "CHR 0x0A \<notin> set b" using cond b_def by simp
  define parts where "parts = Split b CHR '',''"
  define S where "S = sort parts"
  have parts_ne: "parts \<noteq> []" by (simp add: parts_def Split_def splitAcc_nonempty)
  have parts_sub: "\<forall>x\<in>set parts. set x \<subseteq> set b \<and> CHR '','' \<notin> set x"
    using Split_parts parts_def by blast
  have parts_trim: "map (\<lambda>part. Trim part ''` '') parts = parts"
  proof (rule map_idI)
    fix x assume "x \<in> set parts"
    then have "\<forall>c\<in>set x. c \<notin> set ''` ''" using parts_sub b_clean by blast
    then show "Trim x ''` '' = x" by (rule Trim_id)
  qed
  have S_set: "set S = set parts" by (simp add: S_def)
  have S_ne: "S \<noteq> []" using parts_ne S_set by (metis set_empty)
  have S_sorted: "sort S = S" unfolding S_def by (simp add: sorted_sort_id)
  have S_sub: "\<forall>x\<in>set S. set x \<subseteq> set b \<and> CHR '','' \<notin> set x" using parts_sub S_set by simp
  have S_clean: "\<forall>x\<in>set S. \<forall>c\<in>set x. c \<notin> set ''` '' \<and> toUpperRune c = c"
    using S_sub b_clean by blast
  have S_trim: "map (\<lambda>part. Trim part ''` '') S = S"
  proof (rule map_idI)
    fix x assume "x \<in> set S"
    then have "\<forall>c\<in>set x. c \<notin> set ''` ''" using S_clean by blast
    then show "Trim x ''` '' = x" by (rule Trim_id)
  qed
  define r where "r = a @ ''('' @ Join S '', '' @ '')''"
  have res: "normalizeColumnOrder s = r"
    unfolding normalizeColumnOrder_def r_def S_def using m parts_trim
    by (simp add: parts_def[symmetric])
  define s' where "s' = a @ ''('' @ Join S '','' @ '')''"
  define P where "P = (\<lambda>c::char. \<not> inClass (OneOf ''` '') c)"
  have P_lits: "filter P '', '' = '',''" "filter P ''('' = ''(''" "filter P '')'' = '')''"
    by (simp_all add: P_def)
  have strip_S: "map (filter P) S = S"
  proof (rule map_idI)
    fix x assume "x \<in> set S"
    then have "\<forall>c\<in>set x. c \<notin> set ''` ''" using S_clean by blast
    then show "filter P x = x" by (simp add: filter_id_conv P_def)
  qed
  have strip_a: "filter P a = a"
    using a_clean by (simp add: filter_id_conv P_def)
  have strip_r: "stripSpacesBackticks r = s'"
    unfolding stripSpacesBackticks_def P_def[symmetric] r_def s'_def
    by (simp only: filter_append filter_Join strip_S strip_a P_lits)
  have up_S: "map (map toUpperRune) S = S"
  proof (rule map_idI)
    fix x assume "x \<in> set S"
    then have "\<forall>c\<in>set x. toUpperRune c = c" using S_clean by blast
    then show "map toUpperRune x = x" by (simp add: map_idI)
  qed
  have up_a: "map toUpperRune a = a" using a_clean by (simp add: map_idI)
  have up_s': "ToUpper s' = s'"
    unfolding ToUpper_def s'_def
    by (simp add: map_Join up_S up_a toUpperRune_punct_fix)
  have paren: "CHR ''('' \<in> set s'" by (simp add: s'_def)
  have nall': "s' \<noteq> ''ALL''" "s' \<noteq> ''ALLPRIVILEGES''" using paren by auto
  have step1: "normalizePerm r = normalizeColumnOrder s'"
    using strip_r up_s' nall' by (simp add: normalizePerm_def)
  have J_nl: "CHR 0x0A \<notin> set (Join S '','')"
  proof
    assume "CHR 0x0A \<in> set (Join S '','')"
    then have "CHR 0x0A \<in> (\<Union>x\<in>set S. set x) \<union> set '',''" using set_Join by blast
    then show False using S_sub b_nl by auto
  qed
  have tw: "takeWhile (\<lambda>x. x \<noteq> CHR ''('') s' = a"
    unfolding s'_def using a_no by (simp add: takeWhile_append2)
  have dw': "dropWhile (\<lambda>x. x \<noteq> CHR ''('') s' = ''('' @ Join S '','' @ '')''"
    unfolding s'_def using a_no by (simp add: dropWhile_append2)
  have m': "FindStringSubmatch columnsRegex s' = [s', a, Join S '','']"
    unfolding columnsRegex_match Let_def tw dw' using J_nl by simp
  have "Split (Join S '','') CHR '','' = S"
    using Split_Join[OF S_ne, of "CHR '',''"] S_sub by simp
  then have "normalizeColumnOrder s' = r"
    unfolding normalizeColumnOrder_def r_def using m' S_trim S_sorted by simp
  then show ?thesis using step1 res by simp
qed


lemma normalizePerm_idem: "normalizePerm (normalizePerm p) = normalizePerm p"
proof -
  define s where "s = ToUpper (stripSpacesBackticks p)"
  have clean: "\<forall>c\<in>set s. c \<notin> set ''` '' \<and> toUpperRune c = c"
  proof
    fix c assume "c \<in> set s"
    then obtain d where d: "d \<in> set (stripSpacesBackticks p)" "c = toUpperRune d"
      unfolding s_def ToUpper_def by auto
    then have "d \<notin> set ''` ''" by (simp add: stripSpacesBackticks_def)
    then have "c \<notin> set ''` ''"
      using d(2) toUpperRune_cases[of d] punct_not_letter[of c] by auto
    then show "c \<notin> set ''` '' \<and> toUpperRune c = c" using d(2) toUpperRune_idem by simp
  qed
  show ?thesis
  proof (cases "s = ''ALL'' \<or> s = ''ALLPRIVILEGES''")
    case True
    then have "normalizePerm p = ''ALL PRIVILEGES''"
      unfolding normalizePerm_def Let_def s_def[symmetric] using normalizeColumnOrder_ALL by auto
    then show ?thesis using normalizePerm_ALL by simp
  next
    case False
    then have "normalizePerm p = normalizeColumnOrder s"
      unfolding normalizePerm_def Let_def s_def[symmetric] by simp
    then show ?thesis using normalizeColumnOrder_fix[OF clean] False by simp
  qed
qed

text \<open>
  C9. Privilege canonicalization is idempotent: canonicalizing a canonicalized list
  changes nothing, for every list of raw privilege tokens. The second line shows the
  cases the claim names on a concrete list: a token rewritten to \<^verbatim>\<open>ALL PRIVILEGES\<close>,
  a column list rejoined with a comma and a space, and \<^verbatim>\<open>USAGE\<close> removed.
\<close>

theorem normalizePerms_idempotent:
  "normalizePerms (normalizePerms P) = normalizePerms P \<and>
   normalizePerms [''all'', ''select (`b`, a)'', ''usage'', ''Insert''] =
     [''ALL PRIVILEGES'', ''SELECT(A, B)'', ''INSERT'']"
proof
  show "normalizePerms (normalizePerms P) = normalizePerms P"
    by (induction P) (simp_all add: normalizePerms_def removeUselessPerms_def normalizePerm_idem)
  show "normalizePerms [''all'', ''select (`b`, a)'', ''usage'', ''Insert''] =
     [''ALL PRIVILEGES'', ''SELECT(A, B)'', ''INSERT'']"
    by code_simp
qed

section \<open>Properties of the statement generator and parser\<close>

lemma SQLGrantStatement_exampleGrant: "SQLGrantStatement (TableG exampleGrant) = exampleRow"
  by (simp add: exampleGrant_def exampleRow_def bob_def quoteDatabase_def tGetTable_def HasSuffix_def
      requireClause_def withOption_def sq_def)

lemma parseGrantFromRow_exampleRow:
  "parseGrantFromRow exampleRow =
     Inr (Some (TableG \<lparr> tDatabase = ''app`.`users'',
                          tTable = sq @ ''bob'' @ sq @ ''@'' @ sq @ ''%'' @ sq,
                          tPrivileges = [''SELECT'', ''INSERT''], tGrant = False,
                          tUserOrRole = User ''bob'' ''%'', tTLSOption = [] \<rparr>))"
  by code_simp

text \<open>
  C1 (the code departs from the claim). The generator renders the table grant of the
  claim as the claimed statement. Parsing that statement back does not give the grant:
  the object reference is not split, the database is \<^verbatim>\<open>app`.`users\<close> (the whole
  reference, trimmed), and the table is the text after \<^verbatim>\<open>TO\<close>, \<^verbatim>\<open>'bob'@'%'\<close>.
\<close>

theorem table_grant_round_trip_breaks:
  "SQLGrantStatement (TableG exampleGrant) =
     ''GRANT SELECT, INSERT ON `app`.`users` TO '' @ sq @ ''bob'' @ sq @ ''@'' @ sq @ ''%'' @ sq \<and>
   parseGrantFromRow (SQLGrantStatement (TableG exampleGrant)) =
     Inr (Some (TableG \<lparr> tDatabase = ''app`.`users'',
                          tTable = sq @ ''bob'' @ sq @ ''@'' @ sq @ ''%'' @ sq,
                          tPrivileges = [''SELECT'', ''INSERT''], tGrant = False,
                          tUserOrRole = User ''bob'' ''%'', tTLSOption = [] \<rparr>)) \<and>
   parseGrantFromRow (SQLGrantStatement (TableG exampleGrant)) \<noteq> Inr (Some (TableG exampleGrant))"
  using SQLGrantStatement_exampleGrant parseGrantFromRow_exampleRow
  by (simp add: exampleRow_def exampleGrant_def)

text \<open>
  C2 (the code departs from the claim). The line
  \<^verbatim>\<open>GRANT 'editor', 'viewer' TO 'bob'@'%'\<close> is not parsed into a role-membership grant:
  none of the three statement patterns matches it (the role list of the role pattern
  admits no quote), and the parser returns its error.
\<close>

theorem quoted_role_row_fails:
  "parseGrantFromRow roleRow = Inl (ErrorText (''failed to parse grant statement: '' @ roleRow))"
  by code_simp

lemma search_mono:
  assumes "\<And>p t. steps r1 (p, t, []) \<noteq> [] \<Longrightarrow> steps r2 (p, t, []) \<noteq> []"
  shows "search r1 p s \<noteq> None \<Longrightarrow> search r2 p s \<noteq> None"
proof (induction s arbitrary: p)
  case Nil
  then show ?case using assms[of p "[]"] by (auto split: list.splits)
next
  case (Cons x xs)
  show ?case
  proof (cases "steps r1 (p, x # xs, [])")
    case Nil
    then have "search r1 (Some x) xs \<noteq> None" using Cons.prems by simp
    then have "search r2 (Some x) xs \<noteq> None" by (rule Cons.IH)
    then show ?thesis by (auto split: list.splits)
  next
    case (Cons st sts)
    then have "steps r2 (p, x # xs, []) \<noteq> []" using assms[of p "x # xs"] by simp
    then show ?thesis by (auto split: list.splits)
  qed
qed

lemma FindStringSubmatch_length:
  "length (FindStringSubmatch r s) = (if search r None s = None then 0 else Suc (length (groupIds r)))"
  by (auto simp: FindStringSubmatch_def split: option.splits prod.splits)

lemma roleRegex_steps:
  assumes "steps roleRegex (p, t, c) \<noteq> []"
  shows "\<exists>xs. t = CHR 0x27 # xs \<and>
           (\<exists>st\<in>set (runs (NoneOf sq) (Some CHR 0x27) xs c). \<exists>ys. fst (snd st) = CHR 0x27 # ys)"
proof -
  have r: "roleRegex = Seq (Ch (Lit CHR 0x27)) (Seq (Plus (NoneOf sq)) (Ch (Lit CHR 0x27)))"
    by (simp add: roleRegex_def str_def sq_def)
  obtain xs where t: "t = CHR 0x27 # xs"
    using assms unfolding r by (cases t) (auto split: if_splits)
  have "concat (map (steps (Ch (Lit CHR 0x27))) (rev (tl (runs (NoneOf sq) (Some CHR 0x27) xs c)))) \<noteq> []"
    using assms unfolding r t by simp
  then obtain st where st: "st \<in> set (tl (runs (NoneOf sq) (Some CHR 0x27) xs c))"
      "steps (Ch (Lit CHR 0x27)) st \<noteq> []"
    by auto
  obtain p' s' c' where d: "st = (p', s', c')" by (cases st)
  have "\<exists>ys. s' = CHR 0x27 # ys" using st(2) unfolding d by (cases s') (auto split: if_splits)
  then have q: "\<exists>ys. fst (snd st) = CHR 0x27 # ys" using d by simp
  have "st \<in> set (runs (NoneOf sq) (Some CHR 0x27) xs c)"
    using st(1) by (cases "runs (NoneOf sq) (Some CHR 0x27) xs c") auto
  then have "\<exists>st\<in>set (runs (NoneOf sq) (Some CHR 0x27) xs c). \<exists>ys. fst (snd st) = CHR 0x27 # ys"
    using q by blast
  then show ?thesis using t by blast
qed

lemma userHostRegex_steps:
  assumes "st \<in> set (runs (NoneOf sq) (Some CHR 0x27) xs c)" "fst (snd st) = CHR 0x27 # ys"
  shows "steps userHostRegex (p, CHR 0x27 # xs, c) \<noteq> []"
proof -
  define X where "X = Group 2 (cat [str ''@'', str sq, Group 3 (Star (NoneOf sq)), str sq])"
  have u: "userHostRegex =
      Seq (Ch (Lit CHR 0x27)) (Seq (Group 1 (Star (NoneOf sq))) (Seq (Ch (Lit CHR 0x27)) (Opt X)))"
    by (simp add: userHostRegex_def X_def str_def sq_def)
  obtain p' c' where d: "st = (p', CHR 0x27 # ys, c')" using assms(2) by (cases st) auto
  define st' where "st' = (p', CHR 0x27 # ys, (1::nat, take (length xs - length (CHR 0x27 # ys)) xs) # c')"
  have ne: "steps (Seq (Ch (Lit CHR 0x27)) (Opt X)) st' \<noteq> []"
    unfolding st'_def by simp
  have "st' \<in> set (steps (Group 1 (Star (NoneOf sq))) (Some CHR 0x27, xs, c))"
    using assms(1) unfolding d st'_def by (simp add: image_iff) force
  then have "\<exists>a\<in>set (steps (Group 1 (Star (NoneOf sq))) (Some CHR 0x27, xs, c)).
               steps (Seq (Ch (Lit CHR 0x27)) (Opt X)) a \<noteq> []"
    using ne by blast
  then have "concat (map (steps (Seq (Ch (Lit CHR 0x27)) (Opt X)))
                (steps (Group 1 (Star (NoneOf sq))) (Some CHR 0x27, xs, c))) \<noteq> []"
    by (simp only: concat_eq_Nil_conv set_map) blast
  then have "steps (Seq (Group 1 (Star (NoneOf sq))) (Seq (Ch (Lit CHR 0x27)) (Opt X)))
               (Some CHR 0x27, xs, c) \<noteq> []"
    by (simp only: steps.simps(5) not_False_eq_True)
  then show ?thesis unfolding u by simp
qed

lemma roleRegex_implies_userHostRegex:
  "search roleRegex None s \<noteq> None \<Longrightarrow> search userHostRegex None s \<noteq> None"
proof (rule search_mono)
  fix p t assume "steps roleRegex (p, t, []) \<noteq> []"
  then obtain xs st ys where "t = CHR 0x27 # xs"
      "st \<in> set (runs (NoneOf sq) (Some CHR 0x27) xs [])" "fst (snd st) = CHR 0x27 # ys"
    using roleRegex_steps[of p t "[]"] by blast
  then show "steps userHostRegex (p, t, []) \<noteq> []" using userHostRegex_steps by simp
qed

lemma parseUserOrRole_never_role: "parseUserOrRole grantStr \<noteq> Some (Role role)"
proof
  assume a: "parseUserOrRole grantStr = Some (Role role)"
  have g: "length (groupIds userHostRegex) = 3"
    by (simp add: userHostRegex_def str_def sq_def)
  have n4: "length (FindStringSubmatch userHostRegex grantStr) \<noteq> 4"
    using a by (auto simp: parseUserOrRole_def Let_def split: if_splits)
  then have "search userHostRegex None grantStr = None"
    using g by (auto simp: FindStringSubmatch_length split: if_splits)
  then have "search roleRegex None grantStr = None"
    using roleRegex_implies_userHostRegex by blast
  then have "FindStringSubmatch roleRegex grantStr = []"
    by (simp add: FindStringSubmatch_def)
  then show False using a n4 by (simp add: parseUserOrRole_def Let_def)
qed

text \<open>
  C8 (the code departs from the claim). The login pattern has an optional host part, so
  it matches wherever the role pattern matches, and the test on the number of its
  submatches holds with or without a host: identity extraction never yields a role
  identity. A row whose identity text is a bare quoted name is given a login identity
  with an empty host.
\<close>

theorem bare_name_row_is_login:
  "parseUserOrRole grantStr \<noteq> Some (Role role) \<and>
   parseUserOrRole bareNameRow = Some (User ''app_role'' []) \<and>
   parseGrantFromRow bareNameRow =
     Inr (Some (TableG \<lparr> tDatabase = ''*.*'', tTable = sq @ ''app_role'' @ sq,
                          tPrivileges = [''SELECT''], tGrant = False,
                          tUserOrRole = User ''app_role'' [], tTLSOption = [] \<rparr>))"
proof (intro conjI)
  show "parseUserOrRole grantStr \<noteq> Some (Role role)" by (rule parseUserOrRole_never_role)
  show "parseUserOrRole bareNameRow = Some (User ''app_role'' [])" by code_simp
  show "parseGrantFromRow bareNameRow =
     Inr (Some (TableG \<lparr> tDatabase = ''*.*'', tTable = sq @ ''app_role'' @ sq,
                          tPrivileges = [''SELECT''], tGrant = False,
                          tUserOrRole = User ''app_role'' [], tTLSOption = [] \<rparr>))"
    by code_simp
qed

section \<open>Properties of the reconciliation engine\<close>

lemma quoteDatabase_not_app: "quoteDatabase database \<noteq> ''app''"
  by (auto simp: quoteDatabase_def HasSuffix_def)

lemma importLoop_app_never: "importLoop grantOption ''app'' table grants = None"
proof (induction grants)
  case Nil
  then show ?case by simp
next
  case (Cons grant grants)
  then show ?case by (cases grant) (simp_all add: quoteDatabase_not_app)
qed

lemma ImportGrant_app_users_empty:
  assumes "d_Id d = ''bob@%@app@users''"
  shows "fst (ImportGrant meta d w) \<noteq> Inr (r # rs)"
proof -
  have sp: "Split ''bob@%@app@users'' CHR ''@'' = [''bob'', ''%'', ''app'', ''users'']"
    by code_simp
  obtain res w' where sh: "showUserGrants (metaDB meta) (User ''bob'' ''%'') w = (res, w')"
    by (cases "showUserGrants (metaDB meta) (User ''bob'' ''%'') w")
  show ?thesis
    using assms sp sh
    by (cases "metaErr meta"; cases res)
       (simp_all add: ImportGrant_def getDatabaseFromMeta_def importLoop_app_never)
qed

text \<open>
  C3 (the code departs from the claim). With the import identifier
  \<^verbatim>\<open>bob@%@app@users\<close> the scan compares the database segment \<^verbatim>\<open>app\<close> with the rendering
  of the grant's database, which is back-tick quoted (or \<^verbatim>\<open>*\<close>): no grant matches,
  whatever the live grants are, and the import never returns a resource. In particular
  the table grant on \<^verbatim>\<open>app.users\<close> with grant option false is not returned, and the
  import of the identifier against a database that lists that grant returns the empty
  result.
\<close>

theorem import_app_users_matches_nothing:
  "importLoop False ''app'' ''users'' grants = None \<and>
   importLoop False ''app'' ''users'' [TableG exampleGrant] = None \<and>
   fst (ImportGrant meta (emptyData\<lparr> d_Id := ''bob@%@app@users'' \<rparr>) w) \<noteq> Inr (r # rs) \<and>
   fst (ImportGrant (metaOf (rowsDB [exampleRow])) (emptyData\<lparr> d_Id := ''bob@%@app@users'' \<rparr>) start)
     = Inr []"
proof (intro conjI)
  show "importLoop False ''app'' ''users'' grants = None" by (rule importLoop_app_never)
  show "importLoop False ''app'' ''users'' [TableG exampleGrant] = None" by (rule importLoop_app_never)
  show "fst (ImportGrant meta (emptyData\<lparr> d_Id := ''bob@%@app@users'' \<rparr>) w) \<noteq> Inr (r # rs)"
    by (rule ImportGrant_app_users_empty) simp
  show "fst (ImportGrant (metaOf (rowsDB [exampleRow])) (emptyData\<lparr> d_Id := ''bob@%@app@users'' \<rparr>) start)
     = Inr []"
    by code_simp
qed

lemma CreateGrant_nil_grant:
  assumes "metaErr meta = None" "fst (parseResourceFromData d) = None"
  shows "CreateGrant meta d w = (Panic nilDereference, w)"
  using assms
  by (cases "parseResourceFromData d")
     (simp add: CreateGrant_def getDatabaseFromMeta_def supportsRoles_def hasConflictingGrants_def)

lemma DeleteGrant_nil_grant:
  assumes "metaErr meta = None" "fst (parseResourceFromData d) = None"
  shows "DeleteGrant meta d w = (Panic nilDereference, w)"
  using assms
  by (cases "parseResourceFromData d") (simp add: DeleteGrant_def getDatabaseFromMeta_def)

lemma parseResourceFromData_invalid:
  assumes "d_user d = [] \<or> d_host d = []" "d_role d = []"
  shows "parseResourceFromData d = (None, [''One of user/host or role is required''])"
  using assms by (auto simp: parseResourceFromData_def)

text \<open>
  C7 (the code departs from the claim). For every resource input with neither a user and
  a host nor a role, \<^verbatim>\<open>parseResourceFromData\<close> returns the validation failure, but create
  and delete test the error of the connection lookup instead of that diagnostic: with
  a connection they go on with the nil grant and stop in a run-time panic at the first
  method call on it. No statement reaches the database; the failure is a crash, not a
  returned error.
\<close>

theorem create_delete_panic_on_invalid_input:
  assumes "metaErr meta = None" "d_user d = [] \<or> d_host d = []" "d_role d = []"
  shows "parseResourceFromData d = (None, [''One of user/host or role is required'']) \<and>
         CreateGrant meta d w = (Panic nilDereference, w) \<and>
         DeleteGrant meta d w = (Panic nilDereference, w)"
  using assms parseResourceFromData_invalid[of d] CreateGrant_nil_grant[of meta d w]
    DeleteGrant_nil_grant[of meta d w] by simp

theorem create_delete_panic_on_invalid_input_witness:
  "CreateGrant (metaOf (rowsDB [])) (exampleData\<lparr> d_user := [] \<rparr>) start = (Panic nilDereference, start) \<and>
   DeleteGrant (metaOf (rowsDB [])) (exampleData\<lparr> d_user := [] \<rparr>) start = (Panic nilDereference, start)"
  using create_delete_panic_on_invalid_input[of "metaOf (rowsDB [])" "exampleData\<lparr> d_user := [] \<rparr>" start]
  by (simp add: metaOf_def exampleData_def)

lemma set_Difference: "set (Difference s other) = set s - set other"
  by (auto simp: Difference_def)

lemma dbExec_trace: "snd (snd (dbExec db stmt w)) = snd w @ [Exec stmt]"
  by (simp add: dbExec_def split: prod.splits)

lemma dbExec_result: "fst (dbExec db stmt w) = fst (ExecContext db stmt (fst w))"
  by (simp add: dbExec_def split: prod.splits)

text \<open>
  C4. On the update path the engine computes \<open>added\<close> as the new privileges without the
  old ones and \<open>removed\<close> as the old ones without the new ones. With privileges removed
  and a grant variant that has no partial revoke it fails with an error and issues
  nothing. Otherwise it issues, in this order, one partial revoke of exactly the removed
  privileges when there are any, and one full grant statement of the entity (all its
  current privileges) when privileges were added; the grant statement follows a
  partial revoke only if the database accepted the revoke.
\<close>

theorem updatePrivileges_statements:
  assumes "removed = Difference (d_privileges_old d) (d_privileges d)"
      and "added = Difference (d_privileges d) (d_privileges_old d)"
  shows "set removed = set (d_privileges_old d) - set (d_privileges d) \<and>
         set added = set (d_privileges d) - set (d_privileges_old d) \<and>
         (removed \<noteq> [] \<and> SQLPartialRevokePrivilegesStatement grant removed = None \<longrightarrow>
            updatePrivileges db d grant w =
              (Some (ErrorText ''grant does not support partial privilege revokes''), w)) \<and>
         (SQLPartialRevokePrivilegesStatement grant removed = Some revokeStmt \<longrightarrow>
            snd (snd (updatePrivileges db d grant w)) =
              snd w @ (if removed \<noteq> [] then [Exec revokeStmt] else [])
                    @ (if added \<noteq> [] \<and> (removed = [] \<or> fst (ExecContext db revokeStmt (fst w)) = None)
                       then [Exec (SQLGrantStatement grant)] else []))"
proof (intro conjI impI)
  show "set removed = set (d_privileges_old d) - set (d_privileges d)"
    using assms by (simp add: set_Difference)
  show "set added = set (d_privileges d) - set (d_privileges_old d)"
    using assms by (simp add: set_Difference)
next
  assume "removed \<noteq> [] \<and> SQLPartialRevokePrivilegesStatement grant removed = None"
  then show "updatePrivileges db d grant w =
              (Some (ErrorText ''grant does not support partial privilege revokes''), w)"
    using assms by (simp add: updatePrivileges_def)
next
  assume s: "SQLPartialRevokePrivilegesStatement grant removed = Some revokeStmt"
  obtain e1 w1 where r1: "dbExec db revokeStmt w = (e1, w1)" by (cases "dbExec db revokeStmt w")
  have t1: "snd w1 = snd w @ [Exec revokeStmt]" using dbExec_trace[of db revokeStmt w] r1 by simp
  have f1: "e1 = fst (ExecContext db revokeStmt (fst w))" using dbExec_result[of db revokeStmt w] r1 by simp
  show "snd (snd (updatePrivileges db d grant w)) =
              snd w @ (if removed \<noteq> [] then [Exec revokeStmt] else [])
                    @ (if added \<noteq> [] \<and> (removed = [] \<or> fst (ExecContext db revokeStmt (fst w)) = None)
                       then [Exec (SQLGrantStatement grant)] else [])"
  proof (cases "removed = []")
    case True
    then show ?thesis
      using assms dbExec_trace[of db "SQLGrantStatement grant" w]
      by (simp add: updatePrivileges_def)
  next
    case False
    show ?thesis
    proof (cases e1)
      case None
      then show ?thesis
        using assms s r1 t1 f1 False dbExec_trace[of db "SQLGrantStatement grant" w1]
        by (simp add: updatePrivileges_def)
    next
      case (Some err)
      then show ?thesis
        using assms s r1 t1 f1 False by (simp add: updatePrivileges_def)
    qed
  qed
qed

lemma parseResourceFromData_exampleData:
  "parseResourceFromData exampleData = (Some updatedGrant, [])"
  by code_simp

theorem updatePrivileges_statements_witness:
  "snd (snd (updatePrivileges (rowsDB []) exampleData updatedGrant start)) =
     [Exec revokeInsert, Exec grantSelectUpdate]"
proof -
  have h1: "[''INSERT''] = Difference (d_privileges_old exampleData) (d_privileges exampleData)"
    by code_simp
  have h2: "[''UPDATE''] = Difference (d_privileges exampleData) (d_privileges_old exampleData)"
    by code_simp
  have h3: "SQLPartialRevokePrivilegesStatement updatedGrant [''INSERT''] = Some revokeInsert"
    by code_simp
  have h4: "fst (ExecContext (rowsDB []) revokeInsert (fst start)) = None"
    by (simp add: rowsDB_def)
  have h5: "SQLGrantStatement updatedGrant = grantSelectUpdate"
    by code_simp
  have h6: "snd start = []" by (simp add: start_def)
  show ?thesis
    using updatePrivileges_statements[OF h1 h2, where grant = updatedGrant
        and revokeStmt = revokeInsert and db = "rowsDB []" and w = start]
      h3 h4 h5 h6 by simp
qed

lemma conflictLoop_iff:
  "conflictLoop desired live =
     (\<exists>g\<in>set live. GrantOption g = GrantOption desired \<and> TypeOf g = TypeOf desired)"
  by (induction live) auto

lemma scanRows_identity:
  "scanRows u rows acc = Inr live \<Longrightarrow>
   \<forall>g\<in>set acc. SQLString (GetUserOrRole g) = SQLString u \<Longrightarrow>
   \<forall>g\<in>set live. SQLString (GetUserOrRole g) = SQLString u"
proof (induction rows arbitrary: acc)
  case Nil
  then show ?case by simp
next
  case (Cons row rows)
  show ?case
  proof (cases "parseGrantFromRow row")
    case (Inl err)
    then show ?thesis using Cons.prems by simp
  next
    case (Inr parsed)
    show ?thesis
    proof (cases parsed)
      case None
      then show ?thesis using Inr Cons by simp
    next
      case (Some g)
      show ?thesis
      proof (cases "SQLString (GetUserOrRole g) = SQLString u")
        case True
        then have "scanRows u rows (acc @ [g]) = Inr live" using Inr Some Cons.prems(1) by simp
        moreover have "\<forall>x\<in>set (acc @ [g]). SQLString (GetUserOrRole x) = SQLString u"
          using True Cons.prems(2) by simp
        ultimately show ?thesis by (rule Cons.IH)
      next
        case False
        then have "scanRows u rows acc = Inr live" using Inr Some Cons.prems(1) by simp
        then show ?thesis using Cons.prems(2) by (rule Cons.IH)
      qed
    qed
  qed
qed

lemma dbQuery_trace: "snd (snd (dbQuery db stmt w)) = snd w @ [Query stmt]"
  by (simp add: dbQuery_def split: prod.splits)

lemma showUserGrants_trace:
  "snd (snd (showUserGrants db u w)) = snd w @ [Query (''SHOW GRANTS FOR '' @ SQLString u)]"
proof -
  obtain res w1 where q: "dbQuery db (''SHOW GRANTS FOR '' @ SQLString u) w = (res, w1)"
    by (cases "dbQuery db (''SHOW GRANTS FOR '' @ SQLString u) w")
  then have "snd w1 = snd w @ [Query (''SHOW GRANTS FOR '' @ SQLString u)]"
    using dbQuery_trace[of db "''SHOW GRANTS FOR '' @ SQLString u" w] by simp
  then show ?thesis using q by (cases res) (simp_all add: showUserGrants_def)
qed

lemma showUserGrants_identity:
  assumes "showUserGrants db u w = (Inr live, w')"
  shows "\<forall>g\<in>set live. SQLString (GetUserOrRole g) = SQLString u"
proof -
  obtain res w1 where q: "dbQuery db (''SHOW GRANTS FOR '' @ SQLString u) w = (res, w1)"
    by (cases "dbQuery db (''SHOW GRANTS FOR '' @ SQLString u) w")
  show ?thesis
  proof (cases res)
    case (Inl err)
    then have "live = []" using assms q by (auto simp: showUserGrants_def split: if_splits)
    then show ?thesis by simp
  next
    case (Inr rows)
    then have "scanRows u rows [] = Inr live" using assms q by (simp add: showUserGrants_def)
    then show ?thesis using scanRows_identity[of u rows "[]" live] by simp
  qed
qed

text \<open>
  C5. Let the live grants of the desired grant's identity be read (every grant of the
  list belongs to that identity). Conflict detection reports a conflict exactly when one
  of them has the grant-option flag and the variant of the desired grant; databases
  and tables are not looked at. When there is such a grant, create returns the error
  that tells the operator to import first, and the query for the live grants is the
  only statement it has sent: no grant statement is issued.
\<close>

theorem conflict_detection:
  assumes "showUserGrants db (GetUserOrRole desired) w = (Inr live, w')"
  shows "(\<forall>g\<in>set live. SQLString (GetUserOrRole g) = SQLString (GetUserOrRole desired)) \<and>
         hasConflictingGrants db (Some desired) w =
           (Return (Inr (\<exists>g\<in>set live. GrantOption g = GrantOption desired \<and> TypeOf g = TypeOf desired)), w') \<and>
         (metaDB meta = db \<and> metaErr meta = None \<and> fst (parseResourceFromData d) = Some desired \<and>
          (isRoleGrant (Some desired) \<longrightarrow> metaHasRoles meta) \<and>
          (\<exists>g\<in>set live. GrantOption g = GrantOption desired \<and> TypeOf g = TypeOf desired) \<longrightarrow>
            CreateGrant meta d w =
              (Return ([''user/role '' @ fmtUserOrRole (GetUserOrRole desired)
                        @ '' already has unmanaged grant - import it first''], d), w') \<and>
            snd w' = snd w @ [Query (''SHOW GRANTS FOR '' @ SQLString (GetUserOrRole desired))])"
proof (intro conjI impI)
  show "\<forall>g\<in>set live. SQLString (GetUserOrRole g) = SQLString (GetUserOrRole desired)"
    using assms by (rule showUserGrants_identity)
  show hc: "hasConflictingGrants db (Some desired) w =
           (Return (Inr (\<exists>g\<in>set live. GrantOption g = GrantOption desired \<and> TypeOf g = TypeOf desired)), w')"
    using assms by (simp add: hasConflictingGrants_def conflictLoop_iff)
  assume a: "metaDB meta = db \<and> metaErr meta = None \<and> fst (parseResourceFromData d) = Some desired \<and>
          (isRoleGrant (Some desired) \<longrightarrow> metaHasRoles meta) \<and>
          (\<exists>g\<in>set live. GrantOption g = GrantOption desired \<and> TypeOf g = TypeOf desired)"
  obtain diags where p: "parseResourceFromData d = (Some desired, diags)"
    using a by (cases "parseResourceFromData d") simp
  show "CreateGrant meta d w =
              (Return ([''user/role '' @ fmtUserOrRole (GetUserOrRole desired)
                        @ '' already has unmanaged grant - import it first''], d), w')"
    using a p hc by (auto simp: CreateGrant_def getDatabaseFromMeta_def supportsRoles_def)
  show "snd w' = snd w @ [Query (''SHOW GRANTS FOR '' @ SQLString (GetUserOrRole desired))]"
    using assms showUserGrants_trace[of db "GetUserOrRole desired" w] by simp
qed

lemma showUserGrants_exampleRow:
  "showUserGrants (rowsDB [exampleRow]) (GetUserOrRole updatedGrant) start =
     (Inr [parsedExampleRow], ((), [Query showGrantsForBob]))"
  by code_simp

theorem conflict_detection_witness:
  "hasConflictingGrants (rowsDB [exampleRow]) (Some updatedGrant) start =
     (Return (Inr True), ((), [Query showGrantsForBob])) \<and>
   CreateGrant (metaOf (rowsDB [exampleRow])) exampleData start =
     (Return ([''user/role {bob %} already has unmanaged grant - import it first''], exampleData),
      ((), [Query showGrantsForBob]))"
proof -
  have h1: "fst (parseResourceFromData exampleData) = Some updatedGrant"
    by (simp add: parseResourceFromData_exampleData)
  have h2: "\<exists>g\<in>set [parsedExampleRow].
              GrantOption g = GrantOption updatedGrant \<and> TypeOf g = TypeOf updatedGrant"
    by (simp add: parsedExampleRow_def updatedGrant_def)
  have h3: "fmtUserOrRole (GetUserOrRole updatedGrant) = ''{bob %}''"
    by (simp add: updatedGrant_def bob_def)
  have h4: "metaDB (metaOf (rowsDB [exampleRow])) = rowsDB [exampleRow]"
       "metaErr (metaOf (rowsDB [exampleRow])) = None"
       "metaHasRoles (metaOf (rowsDB [exampleRow]))"
    by (simp_all add: metaOf_def)
  show ?thesis
    using conflict_detection[OF showUserGrants_exampleRow, where meta = "metaOf (rowsDB [exampleRow])"
        and d = exampleData] h1 h2 h3 h4 by simp
qed

lemma Contains_prefix: "HasPrefix s sub \<Longrightarrow> Contains s sub"
  by (cases s) (auto simp: HasPrefix_def)

lemma Contains_append: "Contains (pre @ sub @ post) sub"
proof (induction pre)
  case Nil
  then show ?case by (simp add: Contains_prefix HasPrefix_def)
next
  case (Cons c pre)
  then show ?case by simp
qed

lemma isNonExistingGrant_iff:
  "isNonExistingGrant (Some err) \<longleftrightarrow>
     (\<exists>text. err = MySQLError 1141 text \<or> err = MySQLError 1147 text \<or> err = MySQLError 1403 text)"
  by (cases err) auto

text \<open>
  C6, as amended. An error is a nonexistent-grant error exactly when it is a MySQL error
  with number 1141, 1147 or 1403. When the revoke statement of delete fails, delete
  reports success on such an error, and on any other error returns a diagnostic that
  holds the revoke statement and the error's text. When the show-grants query fails,
  the retrieval returns the empty list on such an error, and on any other error an
  error whose text is the database error's text behind a fixed prefix (the statement
  is not in it).
\<close>

theorem nonexistent_grant_handling:
  "(isNonExistingGrant (Some err) \<longleftrightarrow>
      (\<exists>text. err = MySQLError 1141 text \<or> err = MySQLError 1147 text \<or> err = MySQLError 1403 text)) \<and>
   (metaErr meta = None \<and> fst (parseResourceFromData d) = Some g \<and>
    dbExec (metaDB meta) (SQLRevokeStatement g) w = (Some err, w') \<longrightarrow>
      DeleteGrant meta d w =
        (if isNonExistingGrant (Some err) then (Return [], w')
         else (Return [''error revoking ALL ('' @ SQLRevokeStatement g @ ''): '' @ errorText err], w')) \<and>
      Contains (''error revoking ALL ('' @ SQLRevokeStatement g @ ''): '' @ errorText err)
               (SQLRevokeStatement g) \<and>
      snd w' = snd w @ [Exec (SQLRevokeStatement g)]) \<and>
   (dbQuery db (''SHOW GRANTS FOR '' @ SQLString u) w = (Inl err, w') \<longrightarrow>
      showUserGrants db u w =
        (if isNonExistingGrant (Some err) then (Inr [], w')
         else (Inl (ErrorText (''showUserGrants - getting grants failed: '' @ errorText err)), w')))"
proof (intro conjI impI)
  show "isNonExistingGrant (Some err) \<longleftrightarrow>
      (\<exists>text. err = MySQLError 1141 text \<or> err = MySQLError 1147 text \<or> err = MySQLError 1403 text)"
    by (rule isNonExistingGrant_iff)
next
  assume a: "metaErr meta = None \<and> fst (parseResourceFromData d) = Some g \<and>
    dbExec (metaDB meta) (SQLRevokeStatement g) w = (Some err, w')"
  obtain diags where p: "parseResourceFromData d = (Some g, diags)"
    using a by (cases "parseResourceFromData d") simp
  show "DeleteGrant meta d w =
        (if isNonExistingGrant (Some err) then (Return [], w')
         else (Return [''error revoking ALL ('' @ SQLRevokeStatement g @ ''): '' @ errorText err], w'))"
    using a p by (simp add: DeleteGrant_def getDatabaseFromMeta_def)
  show "Contains (''error revoking ALL ('' @ SQLRevokeStatement g @ ''): '' @ errorText err)
               (SQLRevokeStatement g)"
    using Contains_append[of "''error revoking ALL (''" "SQLRevokeStatement g" "''): '' @ errorText err"]
    by simp
  show "snd w' = snd w @ [Exec (SQLRevokeStatement g)]"
    using a dbExec_trace[of "metaDB meta" "SQLRevokeStatement g" w] by simp
next
  assume "dbQuery db (''SHOW GRANTS FOR '' @ SQLString u) w = (Inl err, w')"
  then show "showUserGrants db u w =
        (if isNonExistingGrant (Some err) then (Inr [], w')
         else (Inl (ErrorText (''showUserGrants - getting grants failed: '' @ errorText err)), w'))"
    by (simp add: showUserGrants_def)
qed

theorem nonexistent_grant_handling_witness:
  "DeleteGrant (metaOf (failingDB (MySQLError 1141 ''There is no such grant defined''))) exampleData start =
     (Return [], ((), [Exec revokeSelectUpdate])) \<and>
   showUserGrants (failingDB (MySQLError 1141 ''There is no such grant defined'')) bob start =
     (Inr [], ((), [Query showGrantsForBob])) \<and>
   DeleteGrant (metaOf (failingDB (MySQLError 1142 ''command denied''))) exampleData start =
     (Return [''error revoking ALL ('' @ revokeSelectUpdate @ ''): command denied''],
      ((), [Exec revokeSelectUpdate]))"
proof -
  have p: "fst (parseResourceFromData exampleData) = Some updatedGrant"
    by (simp add: parseResourceFromData_exampleData)
  have r: "SQLRevokeStatement updatedGrant = revokeSelectUpdate" by code_simp
  have s: "''SHOW GRANTS FOR '' @ SQLString bob = showGrantsForBob" by code_simp
  have e: "\<And>err. dbExec (metaDB (metaOf (failingDB err))) revokeSelectUpdate start
                = (Some err, ((), [Exec revokeSelectUpdate]))"
    by (simp add: dbExec_def metaOf_def failingDB_def start_def)
  have q: "\<And>err. dbQuery (failingDB err) showGrantsForBob start
                = (Inl err, ((), [Query showGrantsForBob]))"
    by (simp add: dbQuery_def failingDB_def start_def)
  have m: "\<And>db. metaErr (metaOf db) = None" by (simp add: metaOf_def)
  note t1 = nonexistent_grant_handling[where err = "MySQLError 1141 ''There is no such grant defined''"
      and meta = "metaOf (failingDB (MySQLError 1141 ''There is no such grant defined''))"
      and d = exampleData and g = updatedGrant and w = start
      and w' = "((), [Exec revokeSelectUpdate])"]
  note t2 = nonexistent_grant_handling[where err = "MySQLError 1141 ''There is no such grant defined''"
      and db = "failingDB (MySQLError 1141 ''There is no such grant defined'')"
      and u = bob and w = start and w' = "((), [Query showGrantsForBob])"]
  note t3 = nonexistent_grant_handling[where err = "MySQLError 1142 ''command denied''"
      and meta = "metaOf (failingDB (MySQLError 1142 ''command denied''))"
      and d = exampleData and g = updatedGrant and w = start
      and w' = "((), [Exec revokeSelectUpdate])"]
  have "DeleteGrant (metaOf (failingDB (MySQLError 1141 ''There is no such grant defined''))) exampleData start =
     (Return [], ((), [Exec revokeSelectUpdate]))"
    using t1 p r e m by simp
  moreover have "showUserGrants (failingDB (MySQLError 1141 ''There is no such grant defined'')) bob start =
     (Inr [], ((), [Query showGrantsForBob]))"
    using t2 s q by simp
  moreover have "DeleteGrant (metaOf (failingDB (MySQLError 1142 ''command denied''))) exampleData start =
     (Return [''error revoking ALL ('' @ revokeSelectUpdate @ ''): command denied''],
      ((), [Exec revokeSelectUpdate]))"
    using t3 p r e m by simp
  ultimately show ?thesis by simp
qed

text \<open>
  C6 as stated fails on the retrieval: when the show-grants query for \<^verbatim>\<open>'bob'@'%'\<close>
  fails with an error that is not a nonexistent-grant error, the error returned holds
  the text of the database error, not the statement.
\<close>

theorem show_grants_error_omits_statement:
  "\<not> isNonExistingGrant (Some (ErrorText ''connection refused'')) \<and>
   fst (showUserGrants (failingDB (ErrorText ''connection refused'')) bob start) =
     Inl (ErrorText ''showUserGrants - getting grants failed: connection refused'') \<and>
   snd (snd (showUserGrants (failingDB (ErrorText ''connection refused'')) bob start)) =
     [Query showGrantsForBob] \<and>
   \<not> Contains ''showUserGrants - getting grants failed: connection refused'' showGrantsForBob"
  by code_simp

end
